theory Spec2Isabelle
  imports Complex_Main
begin

section \<open>JavaScript values used by the pipeline simulator\<close>

text \<open>
  The simulator lives in \<^verbatim>\<open>frontend/src/lib/types.ts\<close> (the page component \<^verbatim>\<open>Home\<close> and
  the helpers below it). A JavaScript \<^verbatim>\<open>number\<close> is modelled by \<open>number\<close>: a finite value is
  an exact rational, and the three special values are explicit, so that \<^verbatim>\<open>0 / 0\<close> is
  \<open>NaN\<close> and not a HOL default. A binary64 value is the rational it denotes. The quotient
  that \<^verbatim>\<open>generateMockExecution\<close> stores is rounded as IEEE 754 prescribes
  (\<open>binary64_div\<close>). The quotient of \<^verbatim>\<open>generateMockValidation\<close> is kept exact (\<open>num_div\<close>),
  like the decimal literals: the code only compares it with the literals 0.5, 0.95 and 1,
  and for array lengths below \<open>2 ^ 32\<close> a quotient of two lengths differs from such a
  literal by far more than a rounding error whenever it differs at all, so that the
  comparisons come out as they do on the rounded values.
\<close>

datatype number = Num rat | Infinity | NegInfinity | NaN

text \<open>\<^verbatim>\<open>a === b\<close> on numbers: \<^verbatim>\<open>NaN\<close> equals nothing, itself included.\<close>

definition strict_eq :: "number \<Rightarrow> number \<Rightarrow> bool" where
  "strict_eq a b = (a \<noteq> NaN \<and> b \<noteq> NaN \<and> a = b)"

text \<open>\<^verbatim>\<open>a < b\<close> and \<^verbatim>\<open>a >= b\<close> on numbers: both are false as soon as one side is \<^verbatim>\<open>NaN\<close>.\<close>

fun num_lt :: "number \<Rightarrow> number \<Rightarrow> bool" where
  "num_lt NaN b = False"
| "num_lt a NaN = False"
| "num_lt (Num x) (Num y) = (x < y)"
| "num_lt a Infinity = (a \<noteq> Infinity)"
| "num_lt a NegInfinity = False"
| "num_lt NegInfinity b = True"
| "num_lt a b = False"

definition num_ge :: "number \<Rightarrow> number \<Rightarrow> bool" where
  "num_ge a b = (a \<noteq> NaN \<and> b \<noteq> NaN \<and> \<not> num_lt a b)"

text \<open>
  \<^verbatim>\<open>a / b\<close> where both operands are array lengths or counts, hence non-negative integers:
  \<^verbatim>\<open>0 / 0\<close> is \<^verbatim>\<open>NaN\<close> and \<^verbatim>\<open>a / 0\<close> is \<^verbatim>\<open>Infinity\<close> for a positive \<open>a\<close>. This is the
  quotient before rounding.
\<close>

definition num_div :: "nat \<Rightarrow> nat \<Rightarrow> number" where
  "num_div a b =
     (if b = 0 then (if a = 0 then NaN else Infinity) else Num (of_nat a / of_nat b))"

text \<open>
  \<^verbatim>\<open>a / b\<close> in binary64, for two non-negative integers that are themselves binary64
  values (array lengths are below \<open>2 ^ 32\<close>): the quotient is rounded to the nearest value
  with a significand of 53 bits, to the one with an even significand on a tie. The
  exponent \<open>e\<close> is the one with \<open>2 ^ e \<le> q < 2 ^ (e + 1)\<close>, and not below \<open>- 1022\<close>
  (subnormal values share that exponent); a result that reaches \<open>2 ^ 1024\<close> is
  \<^verbatim>\<open>Infinity\<close>.
\<close>

function floor_log2 :: "nat \<Rightarrow> nat" where
  "floor_log2 n = (if n < 2 then 0 else Suc (floor_log2 (n div 2)))"
  by pat_completeness auto
termination
  by (relation "measure id") auto

declare floor_log2.simps [simp del]

definition round_even :: "rat \<Rightarrow> int" where
  "round_even x =
     (let f = \<lfloor>x\<rfloor>; r = x - of_int f
      in if r < 1 / 2 then f else if 1 / 2 < r then f + 1 else if even f then f else f + 1)"

definition binary64_div :: "nat \<Rightarrow> nat \<Rightarrow> number" where
  "binary64_div a b =
     (if b = 0 then (if a = 0 then NaN else Infinity)
      else if a = 0 then Num 0
      else
        let q = of_nat a / of_nat b;
            k = int (floor_log2 a) - int (floor_log2 b);
            e = max (if 2 powi k \<le> q then k else k - 1) (- 1022);
            v = of_int (round_even (q * 2 powi (52 - e))) * 2 powi (e - 52)
        in if 2 powi 1024 \<le> v then Infinity else Num v)"

fun num_sign :: "number \<Rightarrow> int" where
  "num_sign (Num x) = (if 0 < x then 1 else if x < 0 then - 1 else 0)"
| "num_sign Infinity = 1"
| "num_sign NegInfinity = - 1"
| "num_sign NaN = 0"

definition num_mul :: "number \<Rightarrow> number \<Rightarrow> number" where
  "num_mul a b =
     (case (a, b) of
        (Num x, Num y) \<Rightarrow> Num (x * y)
      | _ \<Rightarrow> if a = NaN \<or> b = NaN \<or> num_sign a * num_sign b = 0 then NaN
             else if 0 < num_sign a * num_sign b then Infinity else NegInfinity)"

text \<open>
  \<^verbatim>\<open>n.toString(radix)\<close> for a non-negative integer: the digits in the given radix, most
  significant first.
\<close>

definition digit_char :: "nat \<Rightarrow> char" where
  "digit_char d = ''0123456789abcdefghijklmnopqrstuvwxyz'' ! d"

function digits_of :: "nat \<Rightarrow> nat \<Rightarrow> string" where
  "digits_of b n =
     (if b < 2 \<or> n < b then [digit_char n]
      else digits_of b (n div b) @ [digit_char (n mod b)])"
  by pat_completeness auto
termination
  by (relation "measure snd") auto

declare digits_of.simps [simp del]

definition toString_radix :: "int \<Rightarrow> nat \<Rightarrow> string" where
  "toString_radix i b =
     (if i < 0 then ''-'' @ digits_of b (nat (- i)) else digits_of b (nat i))"

text \<open>
  \<^verbatim>\<open>x.toFixed(0)\<close>: the nearest integer, the larger one on a tie, printed in decimal; the
  sign is treated apart. (The exponential form JavaScript uses from \<open>10 ^ 21\<close> on is not
  modelled: the simulator only prints percentages.)
\<close>

fun toFixed0 :: "number \<Rightarrow> string" where
  "toFixed0 (Num x) =
     (if x < 0 then ''-'' @ digits_of 10 (nat \<lfloor>- x + 1 / 2\<rfloor>)
      else digits_of 10 (nat \<lfloor>x + 1 / 2\<rfloor>))"
| "toFixed0 Infinity = ''Infinity''"
| "toFixed0 NegInfinity = ''-Infinity''"
| "toFixed0 NaN = ''NaN''"

text \<open>\<^verbatim>\<open>s.toUpperCase()\<close> on ASCII text (the framework names and the status words).\<close>

definition upper_char :: "char \<Rightarrow> char" where
  "upper_char c =
     (let n = (of_char c :: nat) in if 97 \<le> n \<and> n \<le> 122 then char_of (n - 32) else c)"

definition toUpperCase :: "string \<Rightarrow> string" where
  "toUpperCase s = map upper_char s"

subsection \<open>The random source\<close>

text \<open>
  \<^verbatim>\<open>Math.random()\<close> is the only source of randomness. It is modelled as an injected
  stream of the values it will return, each in \<open>[0, 1)\<close>; a call takes the head and leaves the rest.
\<close>

type_synonym rnd = "nat \<Rightarrow> rat"

definition Math_random :: "rnd \<Rightarrow> rat \<times> rnd" where
  "Math_random r = (r 0, \<lambda>n. r (Suc n))"

text \<open>
  \<^verbatim>\<open>randomHex(len)\<close>: \<^verbatim>\<open>Array.from({ length: len }, () => Math.floor(Math.random() * 16).toString(16)).join('')\<close>.
\<close>

fun randomHex :: "nat \<Rightarrow> rnd \<Rightarrow> string \<times> rnd" where
  "randomHex 0 r = ([], r)"
| "randomHex (Suc len) r =
     (let (x, r1) = Math_random r;
          (rest, r2) = randomHex len r1
      in (toString_radix \<lfloor>x * 16\<rfloor> 16 @ rest, r2))"

section \<open>The data model\<close>

record WorkflowStep =
  ws_step_number :: number
  ws_title :: string
  ws_description :: string
  ws_action_type :: string
  ws_system :: string
  ws_ui_elements :: "string list"
  ws_expected_output :: string
  ws_timestamp :: number
  ws_duration :: number

record DetectedSystem =
  ds_name :: string
  ds_system_type :: string
  ds_confidence :: number
  ds_version :: string

record ExtractionPattern =
  ep_field :: string
  ep_confidence :: number
  ep_example :: string

record Analysis =
  an_workflow_steps :: "WorkflowStep list"
  an_systems_detected :: "DetectedSystem list"
  an_data_extraction_patterns :: "ExtractionPattern list"
  an_process_summary :: string
  an_video_duration_seconds :: number
  an_frames_analyzed :: number

record Systems =
  sy_total_systems_found :: nat
  sy_detected_systems :: "DetectedSystem list"
  sy_detected_workflows :: "string list"

record SOPStep =
  ss_step_number :: number
  ss_title :: string
  ss_description :: string
  ss_system_involved :: string
  ss_action_type :: string
  ss_expected_output :: string

record SOP =
  sop_id :: string
  sop_title :: string
  sop_description :: string
  sop_steps :: "SOPStep list"
  sop_systems_involved :: "string list"
  sop_success_criteria :: string

record StepResult =
  sr_step_number :: number
  sr_title :: string
  sr_status :: string
  sr_output :: string

record Execution =
  ex_execution_id :: string
  ex_status :: string
  ex_passed_steps :: nat
  ex_total_steps :: nat
  ex_success_rate :: number
  ex_step_results :: "StepResult list"

record ValidationStep =
  vs_step_number :: number
  vs_title :: string
  vs_status :: string
  vs_match_score :: number
  vs_expected :: string
  vs_actual :: string

record Validation =
  va_id :: string
  va_overall_status :: string
  va_passed_steps :: nat
  va_total_steps :: nat
  va_success_rate :: number
  va_validation_steps :: "ValidationStep list"
  va_recommendations :: "string list"

section \<open>The artifact generators\<close>

definition generateMockAnalysis :: Analysis where
  "generateMockAnalysis = \<lparr>
     an_workflow_steps = [
       \<lparr> ws_step_number = Num 1, ws_title = ''Open SAP ERP System'',
         ws_description = ''User navigates to SAP Fiori Launchpad via browser'',
         ws_action_type = ''navigate'', ws_system = ''SAP ERP'',
         ws_ui_elements = [''SAP Fiori Launchpad'', ''Browser URL bar''],
         ws_expected_output = ''SAP dashboard loaded'',
         ws_timestamp = Num 0, ws_duration = Num 8.5 \<rparr>,
       \<lparr> ws_step_number = Num 2, ws_title = ''Enter Authentication Credentials'',
         ws_description = ''User enters username and password into SAP login form'',
         ws_action_type = ''input'', ws_system = ''SAP ERP'',
         ws_ui_elements = [''Username field'', ''Password field'', ''Sign In button''],
         ws_expected_output = ''Authentication successful, main menu displayed'',
         ws_timestamp = Num 8.5, ws_duration = Num 12.3 \<rparr>,
       \<lparr> ws_step_number = Num 3, ws_title = ''Navigate to Purchase Order Module'',
         ws_description = ''User opens Materials Management > Purchase Order > Create (ME21N)'',
         ws_action_type = ''click'', ws_system = ''SAP ERP'',
         ws_ui_elements = [''Main Menu'', ''Materials Management'', ''Create PO button''],
         ws_expected_output = ''Purchase Order creation form opened'',
         ws_timestamp = Num 20.8, ws_duration = Num 6.2 \<rparr>,
       \<lparr> ws_step_number = Num 4, ws_title = ''Fill Purchase Order Form'',
         ws_description = ''User enters vendor V-1001, material MAT-5890, quantity 500, delivery date'',
         ws_action_type = ''input'', ws_system = ''SAP ERP'',
         ws_ui_elements = [''Vendor field'', ''Material field'', ''Quantity field''],
         ws_expected_output = ''PO form populated with all required fields'',
         ws_timestamp = Num 27.0, ws_duration = Num 18.7 \<rparr>,
       \<lparr> ws_step_number = Num 5, ws_title = ''Submit and Verify Purchase Order'',
         ws_description = ''User clicks Submit, PO number 4500012847 is generated'',
         ws_action_type = ''click'', ws_system = ''SAP ERP'',
         ws_ui_elements = [''Submit button'', ''Confirmation dialog'', ''PO number display''],
         ws_expected_output = ''PO 4500012847 created, status: Pending Approval'',
         ws_timestamp = Num 45.7, ws_duration = Num 10.1 \<rparr>],
     an_systems_detected = [
       \<lparr> ds_name = ''SAP ERP'', ds_system_type = ''erp'', ds_confidence = Num 0.96,
         ds_version = ''S/4HANA 2023'' \<rparr>,
       \<lparr> ds_name = ''Microsoft Outlook'', ds_system_type = ''email'', ds_confidence = Num 0.82,
         ds_version = ''Microsoft 365'' \<rparr>,
       \<lparr> ds_name = ''Chrome Browser'', ds_system_type = ''other'', ds_confidence = Num 0.71,
         ds_version = ''v120'' \<rparr>],
     an_data_extraction_patterns = [
       \<lparr> ep_field = ''PO_Number'', ep_confidence = Num 0.95, ep_example = ''4500012847'' \<rparr>,
       \<lparr> ep_field = ''Vendor_ID'', ep_confidence = Num 0.92, ep_example = ''V-1001'' \<rparr>,
       \<lparr> ep_field = ''Material_Code'', ep_confidence = Num 0.90, ep_example = ''MAT-5890'' \<rparr>,
       \<lparr> ep_field = ''Quantity'', ep_confidence = Num 0.88, ep_example = ''500'' \<rparr>,
       \<lparr> ep_field = ''Total_Amount'', ep_confidence = Num 0.85, ep_example = ''$125,000.00'' \<rparr>],
     an_process_summary = ''SAP Purchase Order Creation - User logs into SAP S/4HANA, navigates to ME21N, fills vendor/material/quantity details, submits PO, and receives confirmation'',
     an_video_duration_seconds = Num 55.8,
     an_frames_analyzed = Num 167 \<rparr>"

definition sop_step_of :: "WorkflowStep \<Rightarrow> SOPStep" where
  "sop_step_of ws = \<lparr>
     ss_step_number = ws_step_number ws,
     ss_title = ws_title ws,
     ss_description = ws_description ws,
     ss_system_involved = ws_system ws,
     ss_action_type = ws_action_type ws,
     ss_expected_output = ws_expected_output ws \<rparr>"

definition generateMockSOP :: "string \<Rightarrow> Analysis \<Rightarrow> rnd \<Rightarrow> SOP \<times> rnd" where
  "generateMockSOP videoId analysis r =
     (let (hex, r1) = randomHex 8 r
      in (\<lparr> sop_id = ''sop-'' @ hex,
            sop_title = ''SAP Purchase Order Creation'',
            sop_description = an_process_summary analysis,
            sop_steps = map sop_step_of (an_workflow_steps analysis),
            sop_systems_involved = [''SAP ERP'', ''Microsoft Outlook'', ''Chrome Browser''],
            sop_success_criteria = ''PO number generated; Status shows Pending Approval; Email confirmation triggered'' \<rparr>,
          r1))"

text \<open>
  The callback of \<^verbatim>\<open>sop.steps.map\<close> in \<^verbatim>\<open>generateMockExecution\<close> calls \<^verbatim>\<open>Math.random()\<close>
  twice for each step: once for \<^verbatim>\<open>status\<close>, then once more for \<^verbatim>\<open>output\<close>.
\<close>

definition exec_step :: "SOPStep \<Rightarrow> rnd \<Rightarrow> StepResult \<times> rnd" where
  "exec_step s r =
     (let (x1, r1) = Math_random r;
          (x2, r2) = Math_random r1
      in (\<lparr> sr_step_number = ss_step_number s,
            sr_title = ss_title s,
            sr_status = (if x1 < 0.92 then ''completed'' else ''failed''),
            sr_output = (if x2 < 0.92 then ss_expected_output s else ''Element not found'') \<rparr>,
          r2))"

fun exec_steps :: "SOPStep list \<Rightarrow> rnd \<Rightarrow> StepResult list \<times> rnd" where
  "exec_steps [] r = ([], r)"
| "exec_steps (s # ss) r =
     (let (res, r1) = exec_step s r;
          (rest, r2) = exec_steps ss r1
      in (res # rest, r2))"

definition generateMockExecution :: "SOP \<Rightarrow> rnd \<Rightarrow> Execution \<times> rnd" where
  "generateMockExecution sop r =
     (let (stepResults, r1) = exec_steps (sop_steps sop) r;
          passed = length (filter (\<lambda>s. sr_status s = ''completed'') stepResults);
          (hex, r2) = randomHex 8 r1
      in (\<lparr> ex_execution_id = ''exec-'' @ hex,
            ex_status = (if passed = length stepResults then ''completed'' else ''partial''),
            ex_passed_steps = passed,
            ex_total_steps = length stepResults,
            ex_success_rate = binary64_div passed (length stepResults),
            ex_step_results = stepResults \<rparr>,
          r2))"

text \<open>
  The callback of \<^verbatim>\<open>sop.steps.map\<close> in \<^verbatim>\<open>generateMockValidation\<close>. \<^verbatim>\<open>execStep?.status\<close> is
  \<^verbatim>\<open>undefined\<close> when \<^verbatim>\<open>find\<close> found nothing, and \<^verbatim>\<open>execStep?.output || 'No data'\<close> falls back
  both then and when the output is the empty string.
\<close>

definition validation_step :: "Execution \<Rightarrow> SOPStep \<Rightarrow> ValidationStep" where
  "validation_step execution s =
     (let execStep = find (\<lambda>e. strict_eq (sr_step_number e) (ss_step_number s))
                       (ex_step_results execution);
          match = (if (case execStep of None \<Rightarrow> False | Some e \<Rightarrow> sr_status e = ''completed'')
                   then Num 1.0 else Num 0.16)
      in \<lparr> vs_step_number = ss_step_number s,
           vs_title = ss_title s,
           vs_status = (if num_ge match (Num 0.8) then ''passed''
                        else if num_ge match (Num 0.5) then ''partial'' else ''failed''),
           vs_match_score = match,
           vs_expected = ss_expected_output s,
           vs_actual = (case execStep of
                          None \<Rightarrow> ''No data''
                        | Some e \<Rightarrow> if sr_output e \<noteq> [] then sr_output e else ''No data'') \<rparr>)"

definition generateMockValidation :: "SOP \<Rightarrow> Execution \<Rightarrow> rnd \<Rightarrow> Validation \<times> rnd" where
  "generateMockValidation sop execution r =
     (let validationSteps = map (validation_step execution) (sop_steps sop);
          passed = length (filter (\<lambda>v. vs_status v = ''passed'') validationSteps);
          rate = num_div passed (length validationSteps);
          (hex, r1) = randomHex 8 r
      in (\<lparr> va_id = ''val-'' @ hex,
            va_overall_status = (if num_ge rate (Num 0.95) then ''passed''
                                 else if num_ge rate (Num 0.5) then ''partial'' else ''failed''),
            va_passed_steps = passed,
            va_total_steps = length validationSteps,
            va_success_rate = rate,
            va_validation_steps = validationSteps,
            va_recommendations =
              (if num_lt rate (Num 1)
               then [''Review failed steps and add explicit waits for element selectors'']
               else [''All steps passed. Consider adding edge case tests.'']) \<rparr>,
          r1))"

section \<open>The pipeline state machine\<close>

datatype run_status = Idle | Running | Completed | Failed

datatype tab = Dashboard | Pipeline | Results

record PipelineState =
  p_stage :: nat
  p_status :: run_status
  p_videoId :: "string option"
  p_analysis :: "Analysis option"
  p_systems :: "Systems option"
  p_sop :: "SOP option"
  p_execution :: "Execution option"
  p_validation :: "Validation option"

text \<open>
  The state of the component \<^verbatim>\<open>Home\<close> that \<^verbatim>\<open>runPipeline\<close> reads and writes, together with
  the two things it takes from its environment: the values \<^verbatim>\<open>Math.random()\<close> will return
  and the strings \<^verbatim>\<open>new Date().toLocaleTimeString()\<close> will return. The field \<open>history\<close>
  records every value \<^verbatim>\<open>setPipeline\<close> has given to \<open>pipeline\<close>, oldest first: these are the
  snapshots an observer of the run sees.
\<close>

record state =
  pipeline :: PipelineState
  activeTab :: tab
  framework :: string
  logs :: "string list"
  random_src :: rnd
  clock_src :: "nat \<Rightarrow> string"
  history :: "PipelineState list"

definition initial_pipeline :: PipelineState where
  "initial_pipeline = \<lparr>
     p_stage = 0, p_status = Idle, p_videoId = None,
     p_analysis = None, p_systems = None, p_sop = None, p_execution = None,
     p_validation = None \<rparr>"

definition initial_state :: "rnd \<Rightarrow> (nat \<Rightarrow> string) \<Rightarrow> state" where
  "initial_state r c = \<lparr>
     pipeline = initial_pipeline, activeTab = Dashboard, framework = ''adk'', logs = [],
     random_src = r, clock_src = c, history = [] \<rparr>"

text \<open>\<^verbatim>\<open>setPipeline(p => ...)\<close>: the updater is applied to the current value.\<close>

definition setPipeline :: "(PipelineState \<Rightarrow> PipelineState) \<Rightarrow> state \<Rightarrow> state" where
  "setPipeline f s =
     s\<lparr> pipeline := f (pipeline s), history := history s @ [f (pipeline s)] \<rparr>"

text \<open>\<^verbatim>\<open>addLog(msg)\<close>: \<^verbatim>\<open>setLogs(prev => [...prev, `[${new Date().toLocaleTimeString()}] ${msg}`])\<close>.\<close>

definition addLog :: "string \<Rightarrow> state \<Rightarrow> state" where
  "addLog msg s =
     s\<lparr> logs := logs s @ [''['' @ clock_src s 0 @ ''] '' @ msg],
        clock_src := (\<lambda>n. clock_src s (Suc n)) \<rparr>"

text \<open>A call that draws from \<^verbatim>\<open>Math.random()\<close>, run on the state's random source.\<close>

definition with_random :: "(rnd \<Rightarrow> 'a \<times> rnd) \<Rightarrow> state \<Rightarrow> 'a \<times> state" where
  "with_random g s = (let (x, r) = g (random_src s) in (x, s\<lparr> random_src := r \<rparr>))"

text \<open>
  A thrown value, kept as the text \<^verbatim>\<open>`${err}`\<close> prints. The four generators are parameters
  of the run, each returning either its artifact or the value it throws, so that the
  \<^verbatim>\<open>catch\<close> block of \<^verbatim>\<open>runPipeline\<close> has a meaning; \<open>mock_generators\<close> are the generators
  of the source, which never throw.
\<close>

datatype error = Thrown string

fun err_text :: "error \<Rightarrow> string" where
  "err_text (Thrown msg) = msg"

record generators =
  gen_analysis :: "rnd \<Rightarrow> (error + Analysis) \<times> rnd"
  gen_sop :: "string \<Rightarrow> Analysis \<Rightarrow> rnd \<Rightarrow> (error + SOP) \<times> rnd"
  gen_execution :: "SOP \<Rightarrow> rnd \<Rightarrow> (error + Execution) \<times> rnd"
  gen_validation :: "SOP \<Rightarrow> Execution \<Rightarrow> rnd \<Rightarrow> (error + Validation) \<times> rnd"

definition returns :: "('a \<times> rnd) \<Rightarrow> (error + 'a) \<times> rnd" where
  "returns res = (Inr (fst res), snd res)"

definition mock_generators :: generators where
  "mock_generators = \<lparr>
     gen_analysis = (\<lambda>r. returns (generateMockAnalysis, r)),
     gen_sop = (\<lambda>videoId analysis r. returns (generateMockSOP videoId analysis r)),
     gen_execution = (\<lambda>sop r. returns (generateMockExecution sop r)),
     gen_validation = (\<lambda>sop execution r. returns (generateMockValidation sop execution r)) \<rparr>"

text \<open>Stage 1, Upload. (\<^verbatim>\<open>await delay(ms)\<close> changes nothing in the state.)\<close>

definition stage1 :: "state \<Rightarrow> string \<times> state" where
  "stage1 s0 =
     (let s1 = addLog ''Stage 1: Uploading video...'' s0;
          (hex, s2) = with_random (randomHex 8) s1;
          videoId = ''video-'' @ hex;
          s3 = setPipeline (\<lambda>p. p\<lparr> p_stage := 1, p_videoId := Some videoId \<rparr>) s2;
          s4 = addLog (''Video uploaded: '' @ videoId) s3
      in (videoId, s4))"

text \<open>Stage 2, Analysis.\<close>

definition stage2 :: "generators \<Rightarrow> state \<Rightarrow> (error + Analysis) \<times> state" where
  "stage2 g s0 =
     (let s1 = setPipeline (\<lambda>p. p\<lparr> p_stage := 2 \<rparr>) s0;
          s2 = addLog ''Stage 2: Analyzing video with Gemini AI...'' s1;
          (res, s3) = with_random (gen_analysis g) s2
      in case res of
           Inl err \<Rightarrow> (Inl err, s3)
         | Inr analysis \<Rightarrow>
             (let s4 = setPipeline (\<lambda>p. p\<lparr> p_analysis := Some analysis \<rparr>) s3;
                  s5 = addLog (''Analysis complete: ''
                                 @ digits_of 10 (length (an_workflow_steps analysis))
                                 @ '' steps, ''
                                 @ digits_of 10 (length (an_systems_detected analysis))
                                 @ '' systems'') s4
              in (Inr analysis, s5)))"

text \<open>Stage 3, System Detection: the artifact is built in place from the analysis.\<close>

definition stage3 :: "Analysis \<Rightarrow> state \<Rightarrow> Systems \<times> state" where
  "stage3 analysis s0 =
     (let s1 = setPipeline (\<lambda>p. p\<lparr> p_stage := 3 \<rparr>) s0;
          s2 = addLog ''Stage 3: Detecting enterprise systems...'' s1;
          systems = \<lparr> sy_total_systems_found = length (an_systems_detected analysis),
                      sy_detected_systems = an_systems_detected analysis,
                      sy_detected_workflows =
                        [''Form Filling'', ''System Navigation'', ''UI Interaction''] \<rparr>;
          s3 = setPipeline (\<lambda>p. p\<lparr> p_systems := Some systems \<rparr>) s2;
          s4 = addLog (''Detected '' @ digits_of 10 (sy_total_systems_found systems)
                         @ '' systems'') s3
      in (systems, s4))"

text \<open>Stage 4, SOP Generation.\<close>

definition stage4 :: "generators \<Rightarrow> string \<Rightarrow> Analysis \<Rightarrow> state \<Rightarrow> (error + SOP) \<times> state" where
  "stage4 g videoId analysis s0 =
     (let s1 = setPipeline (\<lambda>p. p\<lparr> p_stage := 4 \<rparr>) s0;
          s2 = addLog ''Stage 4: Generating SOP document...'' s1;
          (res, s3) = with_random (gen_sop g videoId analysis) s2
      in case res of
           Inl err \<Rightarrow> (Inl err, s3)
         | Inr sop \<Rightarrow>
             (let s4 = setPipeline (\<lambda>p. p\<lparr> p_sop := Some sop \<rparr>) s3;
                  s5 = addLog (''SOP generated: '' @ sop_id sop) s4
              in (Inr sop, s5)))"

text \<open>Stages 5 and 6, ECM Mapping and Code Generation: log output only.\<close>

definition stage5 :: "state \<Rightarrow> state" where
  "stage5 s0 =
     (let s1 = setPipeline (\<lambda>p. p\<lparr> p_stage := 5 \<rparr>) s0;
          s2 = addLog ''Stage 5: Mapping to enterprise systems...'' s1
      in addLog ''ECM mapping complete: 100% automation coverage'' s2)"

definition stage6 :: "state \<Rightarrow> state" where
  "stage6 s0 =
     (let s1 = setPipeline (\<lambda>p. p\<lparr> p_stage := 6 \<rparr>) s0;
          s2 = addLog (''Stage 6: Generating '' @ toUpperCase (framework s1) @ '' code...'') s1
      in addLog (''Code generated: ''
                   @ (if framework s2 = ''adk'' then ''3 files'' else ''1 file'')) s2)"

text \<open>Stage 7, Execution.\<close>

definition stage7 :: "generators \<Rightarrow> SOP \<Rightarrow> state \<Rightarrow> (error + Execution) \<times> state" where
  "stage7 g sop s0 =
     (let s1 = setPipeline (\<lambda>p. p\<lparr> p_stage := 7 \<rparr>) s0;
          s2 = addLog ''Stage 7: Executing automation...'' s1;
          (res, s3) = with_random (gen_execution g sop) s2
      in case res of
           Inl err \<Rightarrow> (Inl err, s3)
         | Inr execution \<Rightarrow>
             (let s4 = setPipeline (\<lambda>p. p\<lparr> p_execution := Some execution \<rparr>) s3;
                  s5 = addLog (''Execution '' @ ex_execution_id execution @ '': ''
                                 @ digits_of 10 (ex_passed_steps execution) @ ''/''
                                 @ digits_of 10 (ex_total_steps execution) @ '' passed'') s4
              in (Inr execution, s5)))"

text \<open>Stage 8, Validation: the artifact and the status \<^verbatim>\<open>completed\<close> are set together.\<close>

definition stage8 :: "generators \<Rightarrow> SOP \<Rightarrow> Execution \<Rightarrow> state \<Rightarrow> (error + Validation) \<times> state" where
  "stage8 g sop execution s0 =
     (let s1 = setPipeline (\<lambda>p. p\<lparr> p_stage := 8 \<rparr>) s0;
          s2 = addLog ''Stage 8: Validating results...'' s1;
          (res, s3) = with_random (gen_validation g sop execution) s2
      in case res of
           Inl err \<Rightarrow> (Inl err, s3)
         | Inr validation \<Rightarrow>
             (let s4 = setPipeline
                         (\<lambda>p. p\<lparr> p_validation := Some validation, p_status := Completed \<rparr>) s3;
                  s5 = addLog (''Validation: '' @ toUpperCase (va_overall_status validation)
                                 @ '' - ''
                                 @ toFixed0 (num_mul (va_success_rate validation) (Num 100))
                                 @ ''%'') s4;
                  s6 = addLog ''Pipeline completed successfully!'' s5
              in (Inr validation, s6)))"

text \<open>
  The \<^verbatim>\<open>try\<close> block: the stages in order, left at the first generator that throws. The
  result is the thrown value, if any, and the state reached.
\<close>

definition try_block :: "generators \<Rightarrow> state \<Rightarrow> error option \<times> state" where
  "try_block g s0 =
     (let (videoId, s1) = stage1 s0
      in case stage2 g s1 of
           (Inl err, s2) \<Rightarrow> (Some err, s2)
         | (Inr analysis, s2) \<Rightarrow>
             (let (systems, s3) = stage3 analysis s2
              in case stage4 g videoId analysis s3 of
                   (Inl err, s4) \<Rightarrow> (Some err, s4)
                 | (Inr sop, s4) \<Rightarrow>
                     (let s5 = stage5 s4;
                          s6 = stage6 s5
                      in case stage7 g sop s6 of
                           (Inl err, s7) \<Rightarrow> (Some err, s7)
                         | (Inr execution, s7) \<Rightarrow>
                             (case stage8 g sop execution s7 of
                                (Inl err, s8) \<Rightarrow> (Some err, s8)
                              | (Inr validation, s8) \<Rightarrow> (None, s8)))))"

definition runPipeline_with :: "generators \<Rightarrow> string \<Rightarrow> state \<Rightarrow> state" where
  "runPipeline_with g fileName s =
     (let s1 = setPipeline (\<lambda>p. p\<lparr> p_status := Running, p_stage := 1 \<rparr>) s;
          s2 = s1\<lparr> activeTab := Pipeline \<rparr>;
          s3 = addLog (''Starting pipeline for: '' @ fileName) s2
      in case try_block g s3 of
           (None, s4) \<Rightarrow> s4
         | (Some err, s4) \<Rightarrow>
             addLog (''Pipeline failed: '' @ err_text err)
               (setPipeline (\<lambda>p. p\<lparr> p_status := Failed \<rparr>) s4))"

definition runPipeline :: "string \<Rightarrow> state \<Rightarrow> state" where
  "runPipeline fileName s = runPipeline_with mock_generators fileName s"

text \<open>
  \<^verbatim>\<open>handleFileSelect(files)\<close>: \<^verbatim>\<open>files\<close> is \<^verbatim>\<open>null\<close> or the list of selected files, given
  here by their names.
\<close>

definition handleFileSelect :: "string list option \<Rightarrow> state \<Rightarrow> state" where
  "handleFileSelect files s =
     (case files of
        None \<Rightarrow> s
      | Some [] \<Rightarrow> s
      | Some (name # _) \<Rightarrow> runPipeline name s)"

text \<open>
  The button "Run Demo Pipeline": \<^verbatim>\<open>disabled={pipeline.status === 'running'}\<close>,
  \<^verbatim>\<open>onClick={() => runPipeline('demo_sap_purchase_order.mp4')}\<close>.
\<close>

definition demo_button_click :: "state \<Rightarrow> state" where
  "demo_button_click s =
     (if p_status (pipeline s) = Running then s
      else runPipeline ''demo_sap_purchase_order.mp4'' s)"

text \<open>The snapshots one run adds to the history.\<close>

definition run_trace :: "generators \<Rightarrow> string \<Rightarrow> state \<Rightarrow> PipelineState list" where
  "run_trace g fileName s = drop (length (history s)) (history (runPipeline_with g fileName s))"

section \<open>Relations and example inputs used in the statements\<close>

text \<open>What one step result has in common with the SOP step it was made from.\<close>

definition step_rel :: "SOPStep \<Rightarrow> StepResult \<Rightarrow> bool" where
  "step_rel s e =
     (sr_step_number e = ss_step_number s \<and> sr_title e = ss_title s
      \<and> (sr_status e = ''completed'' \<or> sr_status e = ''failed'')
      \<and> (sr_output e = ss_expected_output s \<or> sr_output e = ''Element not found''))"

text \<open>Random sources and a clock for the examples.\<close>

definition const_rnd :: "rat \<Rightarrow> rnd" where
  "const_rnd x = (\<lambda>n. x)"

definition rnd_of_list :: "rat list \<Rightarrow> rnd" where
  "rnd_of_list xs = (\<lambda>n. if n < length xs then xs ! n else 0)"

definition const_clock :: "string \<Rightarrow> nat \<Rightarrow> string" where
  "const_clock t = (\<lambda>n. t)"

text \<open>The SOP the pipeline builds from the mock analysis (up to its random identifier).\<close>

definition example_sop :: SOP where
  "example_sop = fst (generateMockSOP ''video-00000000'' generateMockAnalysis (const_rnd 0))"

text \<open>
  An execution of that SOP in which the draws make the first three steps \<^verbatim>\<open>completed\<close>
  and the last two \<^verbatim>\<open>failed\<close>.
\<close>

definition three_of_five :: rnd where
  "three_of_five = rnd_of_list [0.5, 0.5, 0.5, 0.5, 0.5, 0.5, 0.95, 0.5, 0.95, 0.5]"

definition example_execution :: Execution where
  "example_execution = fst (generateMockExecution example_sop three_of_five)"

definition example_validation :: Validation where
  "example_validation = fst (generateMockValidation example_sop example_execution (const_rnd 0))"

text \<open>A SOP with a single step that expects the empty output.\<close>

definition empty_output_sop :: SOP where
  "empty_output_sop = \<lparr>
     sop_id = ''sop-00000000'', sop_title = ''Silent step'', sop_description = ''One step'',
     sop_steps = [\<lparr> ss_step_number = Num 1, ss_title = ''Close dialog'',
                    ss_description = ''User closes the dialog'', ss_system_involved = ''SAP ERP'',
                    ss_action_type = ''click'', ss_expected_output = [] \<rparr>],
     sop_systems_involved = [''SAP ERP''], sop_success_criteria = ''Dialog closed'' \<rparr>"

text \<open>Generators of which one throws, the others being those of the source.\<close>

definition throwing_execution :: generators where
  "throwing_execution =
     mock_generators\<lparr> gen_execution := (\<lambda>sop r. (Inl (Thrown ''Error: driver crashed''), r)) \<rparr>"

text \<open>States for the examples: a freshly loaded page, and the same page just after a run has
  made its first update (status \<^verbatim>\<open>running\<close>, stage 1).\<close>

definition fresh_state :: state where
  "fresh_state = initial_state (const_rnd 0) (const_clock ''12:00:00'')"

definition running_state :: state where
  "running_state = setPipeline (\<lambda>p. p\<lparr> p_status := Running, p_stage := 1 \<rparr>) fresh_state"

text \<open>
  A run from \<open>s\<close> to \<open>s'\<close> that failed at stage \<open>n\<close> with the thrown value \<open>e\<close>, after
  \<open>k\<close> log entries of its own: the status is \<^verbatim>\<open>failed\<close>, the stage is \<open>n\<close> and no
  snapshot of the run has a later stage, and the log is the old log followed by \<open>k\<close>
  entries and the failure entry.
\<close>

definition run_failed_at :: "state \<Rightarrow> state \<Rightarrow> nat \<Rightarrow> nat \<Rightarrow> error \<Rightarrow> bool" where
  "run_failed_at s s' n k e =
     (p_status (pipeline s') = Failed
      \<and> p_stage (pipeline s') = n
      \<and> list_all (\<lambda>q. p_stage q \<le> n) (drop (length (history s)) (history s'))
      \<and> take (length (logs s)) (logs s') = logs s
      \<and> length (logs s') = length (logs s) + k + 1
      \<and> last (logs s') = ''['' @ clock_src s k @ ''] Pipeline failed: '' @ err_text e)"

text \<open>
  The five artifacts, the stage at which each is recorded, and what it means for a
  snapshot to hold one. A snapshot has an artifact \<open>present_after\<close> its stage when it holds
  it as soon as its own stage is beyond the artifact's, and \<open>present_only_from\<close> its stage
  when it holds it only if its own stage has reached the artifact's.
\<close>

datatype artifact = A_analysis | A_systems | A_sop | A_execution | A_validation

fun stage_of :: "artifact \<Rightarrow> nat" where
  "stage_of A_analysis = 2"
| "stage_of A_systems = 3"
| "stage_of A_sop = 4"
| "stage_of A_execution = 7"
| "stage_of A_validation = 8"

fun present :: "artifact \<Rightarrow> PipelineState \<Rightarrow> bool" where
  "present A_analysis q = (p_analysis q \<noteq> None)"
| "present A_systems q = (p_systems q \<noteq> None)"
| "present A_sop q = (p_sop q \<noteq> None)"
| "present A_execution q = (p_execution q \<noteq> None)"
| "present A_validation q = (p_validation q \<noteq> None)"

definition present_after :: "artifact \<Rightarrow> PipelineState \<Rightarrow> bool" where
  "present_after x q = (stage_of x < p_stage q \<longrightarrow> present x q)"

definition present_only_from :: "artifact \<Rightarrow> PipelineState \<Rightarrow> bool" where
  "present_only_from x q = (present x q \<longrightarrow> stage_of x \<le> p_stage q)"

section \<open>Properties of the generators\<close>

lemma exec_steps_length: "length (fst (exec_steps ss r)) = length ss"
  by (induction ss arbitrary: r) (simp_all add: split_beta)

lemma exec_step_rel: "step_rel s (fst (exec_step s r))"
  by (simp add: exec_step_def step_rel_def split_beta)

lemma exec_steps_rel: "list_all2 step_rel ss (fst (exec_steps ss r))"
  by (induction ss arbitrary: r) (simp_all add: split_beta exec_step_rel)

lemma generateMockExecution_results:
  "ex_step_results (fst (generateMockExecution sop r)) = fst (exec_steps (sop_steps sop) r)"
  by (simp add: generateMockExecution_def split_beta Let_def)

lemma validation_steps_eq:
  "va_validation_steps (fst (generateMockValidation sop execution r)) =
     map (validation_step execution) (sop_steps sop)"
  by (simp add: generateMockValidation_def split_beta Let_def)

lemma match_score_cases:
  "vs_match_score (validation_step ex s) = Num 1.0 \<and> vs_status (validation_step ex s) = ''passed''
   \<or> vs_match_score (validation_step ex s) = Num 0.16 \<and> vs_status (validation_step ex s) = ''failed''"
  by (simp add: validation_step_def Let_def num_ge_def)

lemma find_first_match:
  assumes "list_all2 step_rel ss es" and "i < length ss" and "ss_step_number (ss ! i) \<noteq> NaN"
  shows "\<exists>j\<le>i. find (\<lambda>e. strict_eq (sr_step_number e) (ss_step_number (ss ! i))) es = Some (es ! j)
            \<and> ss_step_number (ss ! j) = ss_step_number (ss ! i) \<and> step_rel (ss ! j) (es ! j)"
proof -
  let ?P = "\<lambda>e. strict_eq (sr_step_number e) (ss_step_number (ss ! i))"
  have len: "length es = length ss" using assms(1) by (simp add: list_all2_lengthD)
  have rel: "\<And>k. k < length ss \<Longrightarrow> step_rel (ss ! k) (es ! k)"
    using assms(1) by (simp add: list_all2_conv_all_nth)
  have Pi: "?P (es ! i)" using rel [OF assms(2)] assms(3) by (simp add: strict_eq_def step_rel_def)
  then have "\<exists>k<length es. ?P (es ! k)" using assms(2) len by auto
  then obtain j where j: "j < length es" "?P (es ! j)" "\<forall>k<j. \<not> ?P (es ! k)"
    using exists_least_iff [of "\<lambda>k. k < length es \<and> ?P (es ! k)"] by (metis (no_types, lifting) dual_order.strict_trans)
  have "j \<le> i" using j(3) Pi by (meson not_le_imp_less)
  moreover have "find ?P es = Some (es ! j)" using j by (auto simp: find_Some_iff)
  moreover have "ss_step_number (ss ! j) = ss_step_number (ss ! i)"
    using j(1,2) rel [of j] len by (simp add: strict_eq_def step_rel_def)
  moreover have "step_rel (ss ! j) (es ! j)" using rel j(1) len by simp
  ultimately show ?thesis by blast
qed

lemma find_own_result:
  assumes "list_all2 step_rel ss es" and "i < length ss" and "ss_step_number (ss ! i) \<noteq> NaN"
    and "distinct (map ss_step_number ss)"
  shows "find (\<lambda>e. strict_eq (sr_step_number e) (ss_step_number (ss ! i))) es = Some (es ! i)"
proof -
  obtain j where j: "j \<le> i"
    "find (\<lambda>e. strict_eq (sr_step_number e) (ss_step_number (ss ! i))) es = Some (es ! j)"
    "ss_step_number (ss ! j) = ss_step_number (ss ! i)"
    using find_first_match [OF assms(1-3)] by blast
  have "j < length (map ss_step_number ss)" and "i < length (map ss_step_number ss)"
    using j(1) assms(2) by simp_all
  moreover have "map ss_step_number ss ! j = map ss_step_number ss ! i"
    using j(1,3) assms(2) by simp
  ultimately have "j = i"
    using assms(4) nth_eq_iff_index_eq by blast
  then show ?thesis using j(2) by simp
qed

lemma example_sop_steps:
  "sop_steps example_sop = map sop_step_of (an_workflow_steps generateMockAnalysis)"
  by (simp add: example_sop_def generateMockSOP_def split_beta)

lemmas example_eval =
  example_execution_def generateMockExecution_results example_sop_steps
  generateMockAnalysis_def sop_step_of_def split_beta exec_step_def Math_random_def
  rnd_of_list_def three_of_five_def Let_def

lemma example_results_explicit:
  "ex_step_results example_execution =
    [\<lparr>sr_step_number = Num 1, sr_title = ''Open SAP ERP System'', sr_status = ''completed'',
      sr_output = ''SAP dashboard loaded''\<rparr>,
     \<lparr>sr_step_number = Num 2, sr_title = ''Enter Authentication Credentials'',
      sr_status = ''completed'', sr_output = ''Authentication successful, main menu displayed''\<rparr>,
     \<lparr>sr_step_number = Num 3, sr_title = ''Navigate to Purchase Order Module'',
      sr_status = ''completed'', sr_output = ''Purchase Order creation form opened''\<rparr>,
     \<lparr>sr_step_number = Num 4, sr_title = ''Fill Purchase Order Form'', sr_status = ''failed'',
      sr_output = ''PO form populated with all required fields''\<rparr>,
     \<lparr>sr_step_number = Num 5, sr_title = ''Submit and Verify Purchase Order'',
      sr_status = ''failed'', sr_output = ''PO 4500012847 created, status: Pending Approval''\<rparr>]"
  by (simp add: example_eval)

lemma example_validation_steps:
  "va_validation_steps example_validation
     = map (validation_step example_execution) (sop_steps example_sop)"
  by (simp add: example_validation_def validation_steps_eq)

lemma example_validation_status:
  "map vs_status (va_validation_steps example_validation)
     = [''passed'', ''passed'', ''passed'', ''failed'', ''failed'']"
  by (simp add: example_validation_steps example_sop_steps validation_step_def strict_eq_def
      num_ge_def example_results_explicit generateMockAnalysis_def sop_step_of_def Let_def)

lemma example_validation_counts:
  "length (filter (\<lambda>x. vs_status x = ''passed'') (va_validation_steps example_validation)) = 3
   \<and> length (va_validation_steps example_validation) = 5"
proof -
  have "length (filter (\<lambda>x. x = ''passed'') (map vs_status (va_validation_steps example_validation))) = 3"
    by (simp add: example_validation_status)
  moreover have "length (map vs_status (va_validation_steps example_validation)) = 5"
    by (simp add: example_validation_status)
  ultimately show ?thesis
    by (simp add: filter_map comp_def)
qed

text \<open>
  C1 (as the code behaves). The status and the output of a step result come from two
  separate draws of \<^verbatim>\<open>Math.random()\<close>. With the draws 0.5 and 0.95 the first step of the
  pipeline's SOP is \<^verbatim>\<open>completed\<close> and yet its output is the failure sentinel and not
  the step's expected output; with 0.95 and 0.5 it is \<^verbatim>\<open>failed\<close> and yet its output is
  the expected output and not the sentinel.
\<close>

theorem C1_status_output_independent:
  "sr_status (ex_step_results (fst (generateMockExecution example_sop (rnd_of_list [0.5, 0.95]))) ! 0)
     = ''completed''
   \<and> sr_output (ex_step_results (fst (generateMockExecution example_sop (rnd_of_list [0.5, 0.95]))) ! 0)
     = ''Element not found''
   \<and> ss_expected_output (sop_steps example_sop ! 0) = ''SAP dashboard loaded''
   \<and> sr_status (ex_step_results (fst (generateMockExecution example_sop (rnd_of_list [0.95, 0.5]))) ! 0)
     = ''failed''
   \<and> sr_output (ex_step_results (fst (generateMockExecution example_sop (rnd_of_list [0.95, 0.5]))) ! 0)
     = ''SAP dashboard loaded''"
  by (simp add: generateMockExecution_results example_sop_def generateMockSOP_def
      generateMockAnalysis_def sop_step_of_def split_beta exec_step_def Math_random_def
      rnd_of_list_def Let_def)

text \<open>
  C2. For every validation step produced by \<^verbatim>\<open>generateMockValidation\<close> (the \<open>i\<close>-th one,
  made from the \<open>i\<close>-th SOP step): its match score is exactly 1.0 if the execution step
  result that \<^verbatim>\<open>find\<close> returns for its step number has status \<^verbatim>\<open>completed\<close>, and exactly
  0.16 otherwise (also when there is none); its status is \<^verbatim>\<open>passed\<close> when the score is at
  least 0.8, \<^verbatim>\<open>partial\<close> when it is at least 0.5 and below 0.8, \<^verbatim>\<open>failed\<close> when it is
  below 0.5; and it is never \<^verbatim>\<open>partial\<close>. When the execution is the one
  \<^verbatim>\<open>generateMockExecution\<close> made from the same SOP, and the step numbers are distinct and
  not \<^verbatim>\<open>NaN\<close>, the result found is the \<open>i\<close>-th one.
\<close>

theorem C2_match_score:
  assumes "i < length (sop_steps sop)"
  shows "let s = sop_steps sop ! i;
             v = va_validation_steps (fst (generateMockValidation sop execution r)) ! i;
             found = find (\<lambda>e. strict_eq (sr_step_number e) (ss_step_number s))
                       (ex_step_results execution)
         in length (va_validation_steps (fst (generateMockValidation sop execution r)))
              = length (sop_steps sop)
          \<and> vs_step_number v = ss_step_number s
          \<and> vs_match_score v =
              (if (case found of None \<Rightarrow> False | Some e \<Rightarrow> sr_status e = ''completed'')
               then Num 1.0 else Num 0.16)
          \<and> (num_ge (vs_match_score v) (Num 0.8) \<longrightarrow> vs_status v = ''passed'')
          \<and> (num_ge (vs_match_score v) (Num 0.5) \<and> num_lt (vs_match_score v) (Num 0.8)
               \<longrightarrow> vs_status v = ''partial'')
          \<and> (num_lt (vs_match_score v) (Num 0.5) \<longrightarrow> vs_status v = ''failed'')
          \<and> vs_status v \<noteq> ''partial''
          \<and> (distinct (map ss_step_number (sop_steps sop))
               \<and> NaN \<notin> set (map ss_step_number (sop_steps sop))
               \<and> execution = fst (generateMockExecution sop r0)
               \<longrightarrow> (vs_match_score v = Num 1.0
                      \<longleftrightarrow> sr_status (ex_step_results execution ! i) = ''completed''))"
proof -
  let ?s = "sop_steps sop ! i"
  let ?v = "validation_step execution ?s"
  let ?found = "find (\<lambda>e. strict_eq (sr_step_number e) (ss_step_number ?s))
                  (ex_step_results execution)"
  have nth: "va_validation_steps (fst (generateMockValidation sop execution r)) ! i = ?v"
    using assms by (simp add: validation_steps_eq)
  have len: "length (va_validation_steps (fst (generateMockValidation sop execution r)))
               = length (sop_steps sop)"
    by (simp add: validation_steps_eq)
  have num: "vs_step_number ?v = ss_step_number ?s"
    by (simp add: validation_step_def Let_def)
  have score: "vs_match_score ?v =
      (if (case ?found of None \<Rightarrow> False | Some e \<Rightarrow> sr_status e = ''completed'')
       then Num 1.0 else Num 0.16)"
    by (simp add: validation_step_def Let_def)
  have cls: "(num_ge (vs_match_score ?v) (Num 0.8) \<longrightarrow> vs_status ?v = ''passed'')
       \<and> (num_ge (vs_match_score ?v) (Num 0.5) \<and> num_lt (vs_match_score ?v) (Num 0.8)
             \<longrightarrow> vs_status ?v = ''partial'')
       \<and> (num_lt (vs_match_score ?v) (Num 0.5) \<longrightarrow> vs_status ?v = ''failed'')
       \<and> vs_status ?v \<noteq> ''partial''"
    using match_score_cases [of execution ?s] by (auto simp: num_ge_def)
  have own: "vs_match_score ?v = Num 1.0
               \<longleftrightarrow> sr_status (ex_step_results execution ! i) = ''completed''"
    if d: "distinct (map ss_step_number (sop_steps sop))"
      and n: "NaN \<notin> set (map ss_step_number (sop_steps sop))"
      and e: "execution = fst (generateMockExecution sop r0)"
  proof -
    have "ss_step_number ?s \<noteq> NaN" using n assms by (metis length_map nth_map nth_mem)
    then have "?found = Some (ex_step_results execution ! i)"
      unfolding e generateMockExecution_results
      using find_own_result [OF exec_steps_rel assms _ d] by simp
    then show ?thesis using score by simp
  qed
  show ?thesis
    unfolding Let_def nth using len num score cls own by blast
qed

text \<open>
  C2 at the fourth step of the pipeline's SOP, whose execution failed: score 0.16, status
  \<^verbatim>\<open>failed\<close>.
\<close>

theorem C2_match_score_witness:
  "3 < length (sop_steps example_sop)
   \<and> distinct (map ss_step_number (sop_steps example_sop))
   \<and> NaN \<notin> set (map ss_step_number (sop_steps example_sop))
   \<and> sr_status (ex_step_results example_execution ! 3) = ''failed''
   \<and> vs_match_score (va_validation_steps example_validation ! 3) = Num 0.16
   \<and> vs_status (va_validation_steps example_validation ! 3) = ''failed''"
proof -
  have h: "3 < length (sop_steps example_sop)"
    by (simp add: example_sop_steps generateMockAnalysis_def)
  note t = C2_match_score [OF h, of example_execution "const_rnd 0" three_of_five,
      unfolded Let_def, folded example_validation_def]
  have d: "distinct (map ss_step_number (sop_steps example_sop))"
    and n: "NaN \<notin> set (map ss_step_number (sop_steps example_sop))"
    by (simp_all add: example_sop_steps generateMockAnalysis_def sop_step_of_def)
  have e: "example_execution = fst (generateMockExecution example_sop three_of_five)"
    by (simp add: example_execution_def)
  have f: "sr_status (ex_step_results example_execution ! 3) = ''failed''"
    by (simp add: example_results_explicit)
  from t d n e have iff: "vs_match_score (va_validation_steps example_validation ! 3) = Num 1.0
      \<longleftrightarrow> sr_status (ex_step_results example_execution ! 3) = ''completed''"
    by blast
  from t have two: "vs_match_score (va_validation_steps example_validation ! 3) =
      (if (case find (\<lambda>e. strict_eq (sr_step_number e) (ss_step_number (sop_steps example_sop ! 3)))
             (ex_step_results example_execution) of None \<Rightarrow> False
           | Some e \<Rightarrow> sr_status e = ''completed'') then Num 1.0 else Num 0.16)"
    by blast
  have score: "vs_match_score (va_validation_steps example_validation ! 3) = Num 0.16"
    using iff f by (simp add: two split: if_splits)
  from t have "num_lt (vs_match_score (va_validation_steps example_validation ! 3)) (Num 0.5)
      \<longrightarrow> vs_status (va_validation_steps example_validation ! 3) = ''failed''"
    by blast
  then have "vs_status (va_validation_steps example_validation ! 3) = ''failed''"
    by (simp add: score)
  then show ?thesis using h d n f score by simp
qed

text \<open>
  C6. For the validation report produced by \<^verbatim>\<open>generateMockValidation\<close>, with the pass rate
  being the number of validation steps with status \<^verbatim>\<open>passed\<close> divided by their number:
  \<^verbatim>\<open>overall_status\<close> is \<^verbatim>\<open>passed\<close> iff the rate is at least 0.95, \<^verbatim>\<open>partial\<close> iff it is at
  least 0.5 and below 0.95, and \<^verbatim>\<open>failed\<close> otherwise; \<^verbatim>\<open>recommendations\<close> is never empty,
  it is the "review failed steps" message whenever the rate is below 1.0 and the
  "all passed" message when the rate is 1.0.
\<close>

theorem C6_overall_status:
  "let v = fst (generateMockValidation sop execution r);
       rate = num_div (length (filter (\<lambda>x. vs_status x = ''passed'') (va_validation_steps v)))
                (length (va_validation_steps v))
   in va_success_rate v = rate
    \<and> (va_overall_status v = ''passed'' \<longleftrightarrow> num_ge rate (Num 0.95))
    \<and> (va_overall_status v = ''partial'' \<longleftrightarrow> num_ge rate (Num 0.5) \<and> num_lt rate (Num 0.95))
    \<and> (va_overall_status v = ''failed'' \<longleftrightarrow> \<not> num_ge rate (Num 0.5))
    \<and> va_recommendations v \<noteq> []
    \<and> (num_lt rate (Num 1.0) \<longrightarrow> va_recommendations v =
          [''Review failed steps and add explicit waits for element selectors''])
    \<and> (rate = Num 1.0 \<longrightarrow> va_recommendations v =
          [''All steps passed. Consider adding edge case tests.''])"
proof -
  have ge_lt: "num_ge a (Num y) \<Longrightarrow> num_ge a (Num x) \<or> num_lt a (Num x)" for a x y
    by (cases a) (auto simp: num_ge_def)
  have ge_trans: "num_ge a (Num 0.95) \<Longrightarrow> num_ge a (Num 0.5)" for a
    by (cases a) (auto simp: num_ge_def)
  have lt_ge: "num_lt a (Num 0.95) \<Longrightarrow> \<not> num_ge a (Num 0.95)" for a
    by (simp add: num_ge_def)
  show ?thesis
    using ge_lt ge_trans lt_ge
    by (auto simp: generateMockValidation_def split_beta Let_def)
qed

text \<open>
  C6 on the spec's case of five steps of which three passed: rate 0.6, \<^verbatim>\<open>partial\<close>, the
  "review failed steps" message.
\<close>

theorem C6_overall_status_witness:
  "num_lt (Num (3 / 5)) (Num 1.0)
   \<and> va_success_rate example_validation = Num (3 / 5)
   \<and> va_overall_status example_validation = ''partial''
   \<and> va_recommendations example_validation
       = [''Review failed steps and add explicit waits for element selectors'']"
proof -
  note t = C6_overall_status [of example_sop example_execution "const_rnd 0", unfolded Let_def,
      folded example_validation_def]
  have rate: "num_div (length (filter (\<lambda>x. vs_status x = ''passed'')
       (va_validation_steps example_validation))) (length (va_validation_steps example_validation))
      = Num (3 / 5)"
    by (simp add: num_div_def example_validation_counts)
  have lt: "num_lt (Num (3 / 5)) (Num 1.0)" by simp
  have ge: "num_ge (Num (3 / 5)) (Num 0.5)" and lt': "num_lt (Num (3 / 5)) (Num 0.95)"
    by (simp_all add: num_ge_def)
  show ?thesis
    using t lt ge lt' unfolding rate by simp
qed

lemma floor_log2_bounds: "0 < n \<Longrightarrow> 2 ^ floor_log2 n \<le> n \<and> n < 2 ^ Suc (floor_log2 n)"
proof (induction n rule: floor_log2.induct)
  case (1 n)
  show ?case
  proof (cases "n < 2")
    case True
    with 1(2) show ?thesis by (simp add: floor_log2.simps)
  next
    case False
    then have pos: "0 < n div 2" by simp
    from 1(1) [OF False pos] have ih: "2 ^ floor_log2 (n div 2) \<le> n div 2"
      "n div 2 < 2 ^ Suc (floor_log2 (n div 2))" by simp_all
    have eq: "floor_log2 n = Suc (floor_log2 (n div 2))"
      using False by (subst floor_log2.simps) simp
    have "2 * 2 ^ floor_log2 (n div 2) \<le> n" using ih(1) by linarith
    moreover have "n < 2 * 2 ^ Suc (floor_log2 (n div 2))" using ih(2) by linarith
    ultimately show ?thesis by (simp add: eq)
  qed
qed

lemma round_even_near: "\<bar>of_int (round_even x) - x\<bar> \<le> 1 / 2"
proof -
  have "of_int \<lfloor>x\<rfloor> \<le> x" "x < of_int \<lfloor>x\<rfloor> + 1" by linarith+
  then show ?thesis
    by (auto simp: round_even_def Let_def)
qed

lemma round_even_of_int: "round_even (of_int n) = n"
  by (simp add: round_even_def)

lemma binary64_div_close:
  assumes a: "0 < a" and ab: "a \<le> b" and b: "b < 2 ^ 32"
  shows "\<exists>v. binary64_div a b = Num v
           \<and> \<bar>v - of_nat a / of_nat b\<bar> \<le> (of_nat a / of_nat b) / 2 ^ 53"
proof -
  define q :: rat where "q = of_nat a / of_nat b"
  define k where "k = int (floor_log2 a) - int (floor_log2 b)"
  define e0 where "e0 = (if 2 powi k \<le> q then k else k - 1)"
  define m where "m = round_even (q * 2 powi (52 - e0))"
  define v :: rat where "v = of_int m * 2 powi (e0 - 52)"
  have b0: "0 < b" using a ab by simp
  have q0: "0 < q" and q1: "q \<le> 1" using a ab b0 by (simp_all add: q_def)
  note fa = floor_log2_bounds [OF a] and fb = floor_log2_bounds [OF b0]
  have ra: "(2::rat) ^ floor_log2 a \<le> of_nat a" "(of_nat a :: rat) < 2 ^ Suc (floor_log2 a)"
    using fa by (metis of_nat_le_iff of_nat_numeral of_nat_power,
        metis of_nat_less_iff of_nat_numeral of_nat_power)
  have rb: "(2::rat) ^ floor_log2 b \<le> of_nat b" "(of_nat b :: rat) < 2 ^ Suc (floor_log2 b)"
    using fb by (metis of_nat_le_iff of_nat_numeral of_nat_power,
        metis of_nat_less_iff of_nat_numeral of_nat_power)
  have fb31: "floor_log2 b < 32"
  proof -
    have "(2::nat) ^ floor_log2 b < 2 ^ 32" using fb b by linarith
    then show ?thesis by (simp only: power_strict_increasing_iff [of 2] rel_simps)
  qed
  have pk: "(2::rat) powi k = 2 ^ floor_log2 a / 2 ^ floor_log2 b"
    unfolding k_def by (simp add: power_int_diff)
  have lo: "(2::rat) powi (k - 1) < q"
  proof -
    have "(2::rat) powi (k - 1) = 2 ^ floor_log2 a / 2 ^ Suc (floor_log2 b)"
      by (simp add: power_int_diff pk)
    also have "\<dots> \<le> of_nat a / 2 ^ Suc (floor_log2 b)"
      by (rule divide_right_mono) (use ra(1) in simp_all)
    also have "\<dots> < of_nat a / of_nat b"
      by (rule divide_strict_left_mono) (use rb(2) a b0 in simp_all)
    finally show ?thesis by (simp add: q_def)
  qed
  have e_lo: "(2::rat) powi e0 \<le> q" using lo by (simp add: e0_def)
  have k_ge: "- 31 \<le> k" using fb31 by (simp add: k_def)
  then have e_ge: "- 1022 \<le> e0" by (simp add: e0_def)
  have near: "\<bar>of_int m - q * 2 powi (52 - e0)\<bar> \<le> 1 / 2"
    unfolding m_def by (rule round_even_near)
  have unit: "(2::rat) powi (52 - e0) * 2 powi (e0 - 52) = 1"
    by (simp add: power_int_add [symmetric])
  have "v - q = (of_int m - q * 2 powi (52 - e0)) * 2 powi (e0 - 52)"
    using unit by (simp add: v_def algebra_simps)
  then have "\<bar>v - q\<bar> = \<bar>of_int m - q * 2 powi (52 - e0)\<bar> * 2 powi (e0 - 52)"
    by (simp add: abs_mult)
  also have "\<dots> \<le> 1 / 2 * 2 powi (e0 - 52)"
    using near by (simp add: mult_right_mono)
  also have "\<dots> = 2 powi e0 / 2 ^ 53"
    by (simp add: power_int_diff)
  also have "\<dots> \<le> q / 2 ^ 53"
    using e_lo by (simp add: divide_right_mono)
  finally have close: "\<bar>v - q\<bar> \<le> q / 2 ^ 53" .
  have "v \<le> q + q / 2 ^ 53" using close by linarith
  also have "\<dots> \<le> 2" using q1 q0 by (simp add: field_simps)
  also have "(2::rat) < 2 powi 1024" by simp
  finally have "v < 2 powi 1024" .
  then have small: "\<not> 2 powi 1024 \<le> v" by (simp only: not_le)
  have mx: "max (if 2 powi k \<le> q then k else k - 1) (- 1022) = e0"
    using e_ge by (simp only: e0_def [symmetric] max_def) simp
  have "binary64_div a b = (if 2 powi 1024 \<le> v then Infinity else Num v)"
    unfolding binary64_div_def Let_def q_def [symmetric] k_def [symmetric] mx v_def m_def
    using a b0 by simp
  then have "binary64_div a b = Num v"
    by (simp only: small if_False)
  then show ?thesis using close by (simp add: q_def)
qed

lemma binary64_div_same: "0 < a \<Longrightarrow> binary64_div a a = Num 1"
proof -
  assume a: "0 < a"
  have "round_even (2 ^ 52) = 2 ^ 52"
    using round_even_of_int [of "2 ^ 52"] by simp
  then show ?thesis
    using a by (simp add: binary64_div_def Let_def)
qed

lemma binary64_div_3_5: "binary64_div 3 5 = Num (5404319552844595 / 9007199254740992)"
  by code_simp

lemma example_execution_counts:
  "ex_passed_steps example_execution = 3 \<and> ex_total_steps example_execution = 5
   \<and> ex_success_rate example_execution = binary64_div 3 5
   \<and> ex_status example_execution = ''partial''"
proof -
  have "ex_step_results (fst (generateMockExecution example_sop three_of_five))
      = ex_step_results example_execution"
    by (simp add: example_execution_def)
  then have r: "fst (exec_steps (sop_steps example_sop) three_of_five)
      = ex_step_results example_execution"
    by (simp add: generateMockExecution_results)
  have "length (filter (\<lambda>s. sr_status s = ''completed'') (ex_step_results example_execution)) = 3"
    "length (ex_step_results example_execution) = 5"
    by (simp_all add: example_results_explicit)
  then show ?thesis
    unfolding example_execution_def generateMockExecution_def
    by (simp add: split_beta Let_def r)
qed

text \<open>
  C7 as stated fails: with three of the five steps of the pipeline's SOP completed, the
  stored \<^verbatim>\<open>success_rate\<close> is the binary64 value 5404319552844595 / 2^53, which is not the
  rational 3/5.
\<close>

theorem C7_counterexample:
  "ex_passed_steps example_execution = 3
   \<and> ex_total_steps example_execution = 5
   \<and> ex_success_rate example_execution = Num (5404319552844595 / 9007199254740992)
   \<and> ex_success_rate example_execution
       \<noteq> Num (of_nat (ex_passed_steps example_execution) / of_nat (ex_total_steps example_execution))"
  by (simp add: example_execution_counts binary64_div_3_5)

text \<open>
  C7, amended. For every execution summary produced by \<^verbatim>\<open>generateMockExecution\<close>:
  \<^verbatim>\<open>total_steps\<close> is the number of step results (one per SOP step), \<^verbatim>\<open>passed_steps\<close> counts
  the step results with status \<^verbatim>\<open>completed\<close>, and \<^verbatim>\<open>success_rate\<close> is the binary64 quotient
  \<^verbatim>\<open>passed_steps / total_steps\<close>: the rational quotient rounded to the nearest binary64
  value, within a relative error of \<open>2 ^ - 53\<close> of it for fewer than \<open>2 ^ 32\<close> steps, exactly
  1 when every step passed, exactly 0 when none did, and \<^verbatim>\<open>NaN\<close> for a SOP without steps.
  The summary's status is \<^verbatim>\<open>completed\<close> iff \<^verbatim>\<open>passed_steps == total_steps\<close>, else
  \<^verbatim>\<open>partial\<close>.
\<close>

theorem C7_success_rate:
  "let e = fst (generateMockExecution sop r);
       q = (of_nat (ex_passed_steps e) / of_nat (ex_total_steps e) :: rat)
   in ex_total_steps e = length (ex_step_results e)
    \<and> ex_total_steps e = length (sop_steps sop)
    \<and> ex_passed_steps e = length (filter (\<lambda>s. sr_status s = ''completed'') (ex_step_results e))
    \<and> ex_success_rate e = binary64_div (ex_passed_steps e) (ex_total_steps e)
    \<and> (0 < ex_total_steps e \<and> ex_total_steps e < 2 ^ 32
         \<longrightarrow> (\<exists>v. ex_success_rate e = Num v \<and> \<bar>v - q\<bar> \<le> q / 2 ^ 53))
    \<and> (0 < ex_total_steps e \<and> ex_passed_steps e = ex_total_steps e \<longrightarrow> ex_success_rate e = Num 1)
    \<and> (0 < ex_total_steps e \<and> ex_passed_steps e = 0 \<longrightarrow> ex_success_rate e = Num 0)
    \<and> (ex_total_steps e = 0 \<longrightarrow> ex_success_rate e = NaN)
    \<and> (ex_status e = ''completed'' \<longleftrightarrow> ex_passed_steps e = ex_total_steps e)
    \<and> (ex_status e = ''partial'' \<longleftrightarrow> ex_passed_steps e \<noteq> ex_total_steps e)"
proof -
  define es where "es = fst (exec_steps (sop_steps sop) r)"
  define p where "p = length (filter (\<lambda>s. sr_status s = ''completed'') es)"
  define n where "n = length es"
  have pn: "p \<le> n" by (simp add: p_def n_def)
  have len: "n = length (sop_steps sop)" by (simp add: n_def es_def exec_steps_length)
  have c1: "n = length es" by (simp add: n_def)
  have c3: "p = length (filter (\<lambda>s. sr_status s = ''completed'') es)" by (simp add: p_def)
  have c5: "0 < n \<and> n < 2 ^ 32 \<longrightarrow> (\<exists>v. binary64_div p n = Num v
      \<and> \<bar>v - of_nat p / of_nat n\<bar> \<le> (of_nat p / of_nat n) / 2 ^ 53)"
  proof (cases "p = 0")
    case True
    then show ?thesis by (simp add: binary64_div_def)
  next
    case False
    then show ?thesis using binary64_div_close [of p n] pn by simp
  qed
  have c6: "0 < n \<and> p = n \<longrightarrow> binary64_div p n = Num 1"
    using binary64_div_same by simp
  have c7: "0 < n \<and> p = 0 \<longrightarrow> binary64_div p n = Num 0"
    by (simp add: binary64_div_def)
  have c8: "n = 0 \<longrightarrow> binary64_div p n = NaN"
    using pn by (simp add: binary64_div_def)
  have c9: "((if p = n then ''completed'' else ''partial'') = ''completed'') = (p = n)"
    by simp
  have c10: "((if p = n then ''completed'' else ''partial'') = ''partial'') = (p \<noteq> n)"
    by simp
  have fields: "ex_total_steps (fst (generateMockExecution sop r)) = n"
    "ex_passed_steps (fst (generateMockExecution sop r)) = p"
    "ex_step_results (fst (generateMockExecution sop r)) = es"
    "ex_success_rate (fst (generateMockExecution sop r)) = binary64_div p n"
    "ex_status (fst (generateMockExecution sop r)) = (if p = n then ''completed'' else ''partial'')"
    by (simp_all add: generateMockExecution_def split_beta Let_def es_def p_def n_def)
  show ?thesis
    unfolding Let_def fields
    by (intro conjI) (fact c1 len c3 refl c5 c6 c7 c8 c9 c10)+
qed

text \<open>
  C7 (amended) on an execution of the pipeline's SOP with three of five steps completed.
\<close>

theorem C7_success_rate_witness:
  "0 < ex_total_steps example_execution
   \<and> ex_total_steps example_execution < 2 ^ 32
   \<and> ex_passed_steps example_execution = 3
   \<and> ex_total_steps example_execution = 5
   \<and> ex_success_rate example_execution = Num (5404319552844595 / 9007199254740992)
   \<and> \<bar>5404319552844595 / 9007199254740992 - 3 / 5\<bar> \<le> (3 / 5 :: rat) / 2 ^ 53
   \<and> ex_status example_execution = ''partial''"
proof -
  note t = C7_success_rate [of example_sop three_of_five, unfolded Let_def,
      folded example_execution_def]
  have c: "ex_passed_steps example_execution = 3" "ex_total_steps example_execution = 5"
    using example_execution_counts by simp_all
  have h: "0 < ex_total_steps example_execution \<and> ex_total_steps example_execution < 2 ^ 32"
    by (simp add: c)
  from t h obtain v where v: "ex_success_rate example_execution = Num v"
    "\<bar>v - of_nat (ex_passed_steps example_execution) / of_nat (ex_total_steps example_execution)\<bar>
      \<le> of_nat (ex_passed_steps example_execution) / of_nat (ex_total_steps example_execution) / 2 ^ 53"
    by blast
  from t have d: "ex_success_rate example_execution
      = binary64_div (ex_passed_steps example_execution) (ex_total_steps example_execution)"
    by blast
  have val: "ex_success_rate example_execution = Num (5404319552844595 / 9007199254740992)"
    using d by (simp add: c binary64_div_3_5)
  then have "v = 5404319552844595 / 9007199254740992" using v(1) by simp
  then have bound: "\<bar>5404319552844595 / 9007199254740992 - 3 / 5\<bar> \<le> (3 / 5 :: rat) / 2 ^ 53"
    using v(2) by (simp add: c)
  from t have "ex_status example_execution = ''partial''"
    by (simp add: c)
  then show ?thesis using h c val bound by simp
qed

text \<open>
  C8 as stated fails: the SOP built from the mock analysis lists three systems, while its
  workflow steps name only \<^verbatim>\<open>SAP ERP\<close>.
\<close>

theorem C8_counterexample:
  "set (sop_systems_involved example_sop) \<noteq> set (map ws_system (an_workflow_steps generateMockAnalysis))"
  by (simp add: example_sop_def generateMockSOP_def generateMockAnalysis_def split_beta)

text \<open>
  C8, amended. \<^verbatim>\<open>generateMockSOP\<close> maps each workflow step of the analysis to exactly one
  SOP step, in order: the \<open>k\<close>-th SOP step has the \<open>k\<close>-th workflow step's step number,
  title, description, action type and expected output, and its \<^verbatim>\<open>system_involved\<close> is that
  step's \<^verbatim>\<open>system\<close>. The SOP's \<^verbatim>\<open>systems_involved\<close> is always the fixed list
  \<^verbatim>\<open>['SAP ERP', 'Microsoft Outlook', 'Chrome Browser']\<close>, whatever systems the workflow steps
  name.
\<close>

theorem C8_sop_steps:
  "let sop = fst (generateMockSOP videoId analysis r)
   in length (sop_steps sop) = length (an_workflow_steps analysis)
    \<and> (\<forall>k<length (an_workflow_steps analysis).
          ss_step_number (sop_steps sop ! k) = ws_step_number (an_workflow_steps analysis ! k)
        \<and> ss_title (sop_steps sop ! k) = ws_title (an_workflow_steps analysis ! k)
        \<and> ss_description (sop_steps sop ! k) = ws_description (an_workflow_steps analysis ! k)
        \<and> ss_action_type (sop_steps sop ! k) = ws_action_type (an_workflow_steps analysis ! k)
        \<and> ss_expected_output (sop_steps sop ! k) = ws_expected_output (an_workflow_steps analysis ! k)
        \<and> ss_system_involved (sop_steps sop ! k) = ws_system (an_workflow_steps analysis ! k))
    \<and> sop_systems_involved sop = [''SAP ERP'', ''Microsoft Outlook'', ''Chrome Browser'']"
  by (simp add: generateMockSOP_def split_beta sop_step_of_def)

text \<open>C8 (amended) at the fifth step of the mock analysis.\<close>

theorem C8_sop_steps_witness:
  "4 < length (an_workflow_steps generateMockAnalysis)
   \<and> length (sop_steps example_sop) = 5
   \<and> ss_step_number (sop_steps example_sop ! 4) = Num 5
   \<and> ss_system_involved (sop_steps example_sop ! 4) = ''SAP ERP''
   \<and> sop_systems_involved example_sop = [''SAP ERP'', ''Microsoft Outlook'', ''Chrome Browser'']"
proof -
  note t = C8_sop_steps [of "''video-00000000''" generateMockAnalysis "const_rnd 0",
      unfolded Let_def, folded example_sop_def]
  have len: "4 < length (an_workflow_steps generateMockAnalysis)"
    by (simp add: generateMockAnalysis_def)
  note k = t [THEN conjunct2, THEN conjunct1, rule_format, OF len]
  show ?thesis
    using len t [THEN conjunct1] t [THEN conjunct2, THEN conjunct2] k
    by (simp add: generateMockAnalysis_def)
qed

text \<open>
  C10 as stated fails: for a SOP step that expects the empty output, the execution step
  result with the same step number has the empty output, and the validation step's
  \<^verbatim>\<open>actual\<close> is the fallback \<^verbatim>\<open>No data\<close>.
\<close>

theorem C10_counterexample:
  "sr_step_number (ex_step_results (fst (generateMockExecution empty_output_sop (const_rnd 0.5))) ! 0)
     = ss_step_number (sop_steps empty_output_sop ! 0)
   \<and> sr_output (ex_step_results (fst (generateMockExecution empty_output_sop (const_rnd 0.5))) ! 0) = []
   \<and> vs_actual (va_validation_steps (fst (generateMockValidation empty_output_sop
        (fst (generateMockExecution empty_output_sop (const_rnd 0.5))) (const_rnd 0.5))) ! 0)
     = ''No data''"
  by (simp add: generateMockExecution_results validation_steps_eq empty_output_sop_def
      validation_step_def split_beta exec_step_def Math_random_def const_rnd_def strict_eq_def Let_def)

text \<open>
  C10, amended. For every SOP whose steps all have a non-empty expected output and a step
  number other than \<^verbatim>\<open>NaN\<close>, and every random outcome of the execution generator: for each
  SOP step, \<^verbatim>\<open>find\<close> returns an execution step result with the same step number, its output
  is not empty, and the validation step's \<^verbatim>\<open>actual\<close> is that output, so the fallback
  \<^verbatim>\<open>No data\<close> is not taken. When the step numbers are distinct, the result found is the one
  made from that step.
\<close>

theorem C10_actual_is_output:
  assumes "i < length (sop_steps sop)"
    and "\<forall>s\<in>set (sop_steps sop). ss_expected_output s \<noteq> [] \<and> ss_step_number s \<noteq> NaN"
  shows "\<exists>e. find (\<lambda>e. strict_eq (sr_step_number e) (ss_step_number (sop_steps sop ! i)))
                (ex_step_results (fst (generateMockExecution sop r))) = Some e
            \<and> sr_step_number e = ss_step_number (sop_steps sop ! i)
            \<and> sr_output e \<noteq> []
            \<and> vs_actual (va_validation_steps (fst (generateMockValidation sop
                 (fst (generateMockExecution sop r)) r')) ! i) = sr_output e
            \<and> (distinct (map ss_step_number (sop_steps sop))
                 \<longrightarrow> e = ex_step_results (fst (generateMockExecution sop r)) ! i)"
proof -
  let ?ss = "sop_steps sop"
  let ?es = "fst (exec_steps ?ss r)"
  let ?P = "\<lambda>e. strict_eq (sr_step_number e) (ss_step_number (?ss ! i))"
  have nn: "ss_step_number (?ss ! i) \<noteq> NaN" using assms by simp
  obtain j where j: "j \<le> i" "find ?P ?es = Some (?es ! j)"
    "ss_step_number (?ss ! j) = ss_step_number (?ss ! i)" "step_rel (?ss ! j) (?es ! j)"
    using find_first_match [OF exec_steps_rel assms(1) nn] by blast
  have "ss_expected_output (?ss ! j) \<noteq> []" using assms j(1) by simp
  then have out: "sr_output (?es ! j) \<noteq> []" using j(4) by (auto simp: step_rel_def)
  have num: "sr_step_number (?es ! j) = ss_step_number (?ss ! i)"
    using j(3,4) by (simp add: step_rel_def)
  have act: "vs_actual (va_validation_steps (fst (generateMockValidation sop
                 (fst (generateMockExecution sop r)) r')) ! i) = sr_output (?es ! j)"
    using assms(1) j(2) out
    by (simp add: validation_steps_eq validation_step_def generateMockExecution_results Let_def)
  have own: "?es ! j = ?es ! i" if "distinct (map ss_step_number ?ss)"
    using find_own_result [OF exec_steps_rel assms(1) nn that] j(2) by simp
  show ?thesis
    unfolding generateMockExecution_results
    using j(2) num out act own by (auto simp: generateMockExecution_results)
qed

text \<open>C10 (amended) at the third step of the pipeline's SOP, all draws being 0.95.\<close>

theorem C10_actual_is_output_witness:
  "2 < length (sop_steps example_sop)
   \<and> list_all (\<lambda>s. ss_expected_output s \<noteq> [] \<and> ss_step_number s \<noteq> NaN) (sop_steps example_sop)
   \<and> vs_actual (va_validation_steps (fst (generateMockValidation example_sop
        (fst (generateMockExecution example_sop (const_rnd 0.95))) (const_rnd 0))) ! 2)
     = sr_output (ex_step_results (fst (generateMockExecution example_sop (const_rnd 0.95))) ! 2)"
proof -
  have h1: "2 < length (sop_steps example_sop)"
    by (simp add: example_sop_def generateMockSOP_def generateMockAnalysis_def split_beta)
  have h2: "\<forall>s\<in>set (sop_steps example_sop). ss_expected_output s \<noteq> [] \<and> ss_step_number s \<noteq> NaN"
    by (simp add: example_sop_def generateMockSOP_def generateMockAnalysis_def split_beta
        sop_step_of_def)
  have h3: "distinct (map ss_step_number (sop_steps example_sop))"
    by (simp add: example_sop_def generateMockSOP_def generateMockAnalysis_def split_beta
        sop_step_of_def)
  show ?thesis
    using h1 h2 h3 C10_actual_is_output [OF h1 h2, of "const_rnd 0.95" "const_rnd 0"]
    by (auto simp: list_all_iff)
qed

section \<open>Properties of the pipeline run\<close>

lemma setPipeline_simps [simp]:
  "pipeline (setPipeline f s) = f (pipeline s)"
  "history (setPipeline f s) = history s @ [f (pipeline s)]"
  "logs (setPipeline f s) = logs s"
  "random_src (setPipeline f s) = random_src s"
  "clock_src (setPipeline f s) = clock_src s"
  "framework (setPipeline f s) = framework s"
  "activeTab (setPipeline f s) = activeTab s"
  by (simp_all add: setPipeline_def)

lemma addLog_simps [simp]:
  "pipeline (addLog m s) = pipeline s"
  "history (addLog m s) = history s"
  "logs (addLog m s) = logs s @ [''['' @ clock_src s 0 @ ''] '' @ m]"
  "random_src (addLog m s) = random_src s"
  "clock_src (addLog m s) = (\<lambda>n. clock_src s (Suc n))"
  "framework (addLog m s) = framework s"
  "activeTab (addLog m s) = activeTab s"
  by (simp_all add: addLog_def)

lemma with_random_simps [simp]:
  "fst (with_random g s) = fst (g (random_src s))"
  "pipeline (snd (with_random g s)) = pipeline s"
  "history (snd (with_random g s)) = history s"
  "logs (snd (with_random g s)) = logs s"
  "random_src (snd (with_random g s)) = snd (g (random_src s))"
  "clock_src (snd (with_random g s)) = clock_src s"
  "framework (snd (with_random g s)) = framework s"
  "activeTab (snd (with_random g s)) = activeTab s"
  by (simp_all add: with_random_def split_beta)

lemmas stage_defs = stage1_def stage2_def stage3_def stage4_def stage5_def stage6_def
  stage7_def stage8_def

lemma mock_simps [simp]:
  "gen_analysis mock_generators r = (Inr generateMockAnalysis, r)"
  "gen_sop mock_generators v a r = (Inr (fst (generateMockSOP v a r)), snd (generateMockSOP v a r))"
  "gen_execution mock_generators so r = (Inr (fst (generateMockExecution so r)), snd (generateMockExecution so r))"
  "gen_validation mock_generators so ex r = (Inr (fst (generateMockValidation so ex r)), snd (generateMockValidation so ex r))"
  by (simp_all add: mock_generators_def returns_def)

lemmas run_defs = runPipeline_with_def try_block_def stage_defs split_beta Let_def

lemma Suc_numerals:
  "Suc (Suc (Suc (Suc 0))) = 4"
  "Suc (Suc (Suc (Suc (Suc (Suc (Suc (Suc 0))))))) = 8"
  "Suc (Suc (Suc (Suc (Suc (Suc (Suc (Suc (Suc (Suc (Suc (Suc (Suc (Suc 0))))))))))))) = 14"
  "Suc (Suc (Suc (Suc (Suc (Suc (Suc (Suc (Suc (Suc (Suc (Suc (Suc (Suc (Suc (Suc 0))))))))))))))) = 16"
  by simp_all

lemma generator_cases:
  obtains
    (analysis_throws) e where "fst (gen_analysis g r1) = Inl e"
  | (sop_throws) a r2 e where "gen_analysis g r1 = (Inr a, r2)" "fst (gen_sop g vid a r2) = Inl e"
  | (execution_throws) a r2 so r3 e where "gen_analysis g r1 = (Inr a, r2)"
      "gen_sop g vid a r2 = (Inr so, r3)" "fst (gen_execution g so r3) = Inl e"
  | (validation_throws) a r2 so r3 ex r4 e where "gen_analysis g r1 = (Inr a, r2)"
      "gen_sop g vid a r2 = (Inr so, r3)" "gen_execution g so r3 = (Inr ex, r4)"
      "fst (gen_validation g so ex r4) = Inl e"
  | (all_return) a r2 so r3 ex r4 va r5 where "gen_analysis g r1 = (Inr a, r2)"
      "gen_sop g vid a r2 = (Inr so, r3)" "gen_execution g so r3 = (Inr ex, r4)"
      "gen_validation g so ex r4 = (Inr va, r5)"
proof -
  obtain x1 r2 where g1: "gen_analysis g r1 = (x1, r2)" by (cases "gen_analysis g r1")
  show thesis
  proof (cases x1)
    case (Inl e)
    then show thesis using g1 analysis_throws by simp
  next
    case (Inr a)
    obtain x2 r3 where g2: "gen_sop g vid a r2 = (x2, r3)" by (cases "gen_sop g vid a r2")
    show thesis
    proof (cases x2)
      case (Inl e)
      then show thesis using g1 g2 \<open>x1 = Inr a\<close> sop_throws by simp
    next
      case so: (Inr so)
      obtain x3 r4 where g3: "gen_execution g so r3 = (x3, r4)" by (cases "gen_execution g so r3")
      show thesis
      proof (cases x3)
        case (Inl e)
        then show thesis using g1 g2 g3 \<open>x1 = Inr a\<close> so execution_throws by simp
      next
        case ex: (Inr ex)
        obtain x4 r5 where g4: "gen_validation g so ex r4 = (x4, r5)"
          by (cases "gen_validation g so ex r4")
        show thesis
        proof (cases x4)
          case (Inl e)
          then show thesis using g1 g2 g3 g4 \<open>x1 = Inr a\<close> so ex validation_throws by simp
        next
          case (Inr va)
          then show thesis using g1 g2 g3 g4 \<open>x1 = Inr a\<close> so ex all_return by simp
        qed
      qed
    qed
  qed
qed

lemma run_trace_hd:
  "run_trace g fileName s \<noteq> []
   \<and> hd (run_trace g fileName s) = (pipeline s)\<lparr> p_status := Running, p_stage := 1 \<rparr>"
  by (cases rule: generator_cases [where g = g and ?r1.0 = "snd (randomHex 8 (random_src s))"
        and vid = "''video-'' @ fst (randomHex 8 (random_src s))"])
    (simp_all add: run_trace_def run_defs)

lemma run_trace_sorted: "sorted (map p_stage (run_trace g fileName s))"
  by (cases rule: generator_cases [where g = g and ?r1.0 = "snd (randomHex 8 (random_src s))"
        and vid = "''video-'' @ fst (randomHex 8 (random_src s))"])
    (simp_all add: run_trace_def run_defs)

lemma fresh_state_simps:
  "pipeline fresh_state = initial_pipeline" "logs fresh_state = []" "history fresh_state = []"
  "clock_src fresh_state n = ''12:00:00''" "random_src fresh_state = const_rnd 0"
  by (simp_all add: fresh_state_def initial_state_def const_clock_def)

lemma runPipeline_final:
  "p_status (pipeline (runPipeline fileName s)) = Completed
   \<and> p_analysis (pipeline (runPipeline fileName s)) = Some generateMockAnalysis
   \<and> length (logs (runPipeline fileName s)) = length (logs s) + 18
   \<and> take (length (logs s)) (logs (runPipeline fileName s)) = logs s
   \<and> logs (runPipeline fileName s) ! length (logs s)
        = ''['' @ clock_src s 0 @ ''] Starting pipeline for: '' @ fileName"
  by (simp add: runPipeline_def run_defs nth_append)

text \<open>
  C3. Every run of \<^verbatim>\<open>runPipeline\<close> (with the generators of the source, from any state and
  for any file name) ends with status \<^verbatim>\<open>completed\<close>, and its final state has stage 8 and
  all of analysis, systems, sop, execution and validation present, with consistent
  counts: \<^verbatim>\<open>systems.total_systems_found\<close> is the length of \<^verbatim>\<open>systems.detected_systems\<close>,
  the SOP has as many steps as the analysis has workflow steps, \<^verbatim>\<open>execution.total_steps\<close>
  is the number of SOP steps, and \<^verbatim>\<open>validation.total_steps\<close> equals
  \<^verbatim>\<open>execution.total_steps\<close>.
\<close>

theorem C3_completed_run:
  "p_status (pipeline (runPipeline fileName s)) = Completed
   \<and> p_stage (pipeline (runPipeline fileName s)) = 8
   \<and> (\<exists>a sy so ex va.
         p_analysis (pipeline (runPipeline fileName s)) = Some a
       \<and> p_systems (pipeline (runPipeline fileName s)) = Some sy
       \<and> p_sop (pipeline (runPipeline fileName s)) = Some so
       \<and> p_execution (pipeline (runPipeline fileName s)) = Some ex
       \<and> p_validation (pipeline (runPipeline fileName s)) = Some va
       \<and> sy_total_systems_found sy = length (sy_detected_systems sy)
       \<and> length (sop_steps so) = length (an_workflow_steps a)
       \<and> ex_total_steps ex = length (sop_steps so)
       \<and> va_total_steps va = ex_total_steps ex)"
proof -
  have "length (sop_steps (fst (generateMockSOP v a r))) = length (an_workflow_steps a)" for v a r
    by (simp add: generateMockSOP_def split_beta)
  moreover have "ex_total_steps (fst (generateMockExecution so r)) = length (sop_steps so)" for so r
    by (simp add: generateMockExecution_def split_beta Let_def exec_steps_length)
  moreover have "va_total_steps (fst (generateMockValidation so ex r)) = length (sop_steps so)"
    for so ex r
    by (simp add: generateMockValidation_def split_beta Let_def)
  ultimately show ?thesis
    by (simp add: runPipeline_def runPipeline_with_def try_block_def stage_defs split_beta Let_def)
qed

text \<open>
  C4 as stated fails: \<^verbatim>\<open>runPipeline\<close> does not clear the artifacts of an earlier run, so
  when the execution generator throws in a run that follows a completed one, the run ends
  \<^verbatim>\<open>failed\<close> at stage 7 with the earlier run's validation still present.
\<close>

theorem C4_counterexample:
  "p_status (pipeline (runPipeline_with throwing_execution ''second.mp4''
       (runPipeline ''first.mp4'' fresh_state))) = Failed
   \<and> p_stage (pipeline (runPipeline_with throwing_execution ''second.mp4''
       (runPipeline ''first.mp4'' fresh_state))) = 7
   \<and> p_validation (pipeline (runPipeline_with throwing_execution ''second.mp4''
       (runPipeline ''first.mp4'' fresh_state))) \<noteq> None"
proof -
  have g [simp]: "gen_analysis throwing_execution r = (Inr generateMockAnalysis, r)"
    "gen_sop throwing_execution v a r
       = (Inr (fst (generateMockSOP v a r)), snd (generateMockSOP v a r))"
    "gen_execution throwing_execution so r = (Inl (Thrown ''Error: driver crashed''), r)"
    for r v a so
    by (simp_all add: throwing_execution_def mock_generators_def returns_def)
  have keep: "p_status (pipeline (runPipeline_with throwing_execution f s)) = Failed
      \<and> p_stage (pipeline (runPipeline_with throwing_execution f s)) = 7
      \<and> p_validation (pipeline (runPipeline_with throwing_execution f s))
          = p_validation (pipeline s)" for f s
    by (simp add: run_defs)
  have "p_validation (pipeline (runPipeline f s)) \<noteq> None" for f s
    by (simp add: runPipeline_def run_defs)
  then show ?thesis
    by (simp add: keep)
qed

text \<open>
  C4, amended. If a stage generator throws during \<^verbatim>\<open>runPipeline\<close> (the analysis generator,
  or the SOP, execution or validation generator after the earlier ones have returned),
  the run ends with status \<^verbatim>\<open>failed\<close>, the failure entry \<^verbatim>\<open>Pipeline failed: ...\<close> is appended
  to the log, the stage stays at the stage of the throwing generator (2, 4, 7 or 8) and no
  snapshot of the run is beyond it, and no artifact is recorded for the failing stage or
  a later one: those fields keep the values they had when the run started. In particular
  an execution-generator throw leaves execution and validation as they were, so
  validation is absent if the run started with it absent.
\<close>

theorem C4_generator_throws:
  "let vid = ''video-'' @ fst (randomHex 8 (random_src s));
       r1 = snd (randomHex 8 (random_src s));
       s' = runPipeline_with g fileName s;
       p = pipeline s';
       p0 = pipeline s
   in (fst (gen_analysis g r1) = Inl e \<longrightarrow>
         run_failed_at s s' 2 4 e
         \<and> p_analysis p = p_analysis p0 \<and> p_systems p = p_systems p0 \<and> p_sop p = p_sop p0
         \<and> p_execution p = p_execution p0 \<and> p_validation p = p_validation p0)
    \<and> (\<forall>a r2. gen_analysis g r1 = (Inr a, r2) \<and> fst (gen_sop g vid a r2) = Inl e \<longrightarrow>
         run_failed_at s s' 4 8 e
         \<and> p_sop p = p_sop p0 \<and> p_execution p = p_execution p0
         \<and> p_validation p = p_validation p0)
    \<and> (\<forall>a r2 so r3. gen_analysis g r1 = (Inr a, r2) \<and> gen_sop g vid a r2 = (Inr so, r3)
           \<and> fst (gen_execution g so r3) = Inl e \<longrightarrow>
         run_failed_at s s' 7 14 e
         \<and> p_execution p = p_execution p0 \<and> p_validation p = p_validation p0
         \<and> (p_validation p0 = None \<longrightarrow> p_validation p = None))
    \<and> (\<forall>a r2 so r3 ex r4. gen_analysis g r1 = (Inr a, r2) \<and> gen_sop g vid a r2 = (Inr so, r3)
           \<and> gen_execution g so r3 = (Inr ex, r4) \<and> fst (gen_validation g so ex r4) = Inl e \<longrightarrow>
         run_failed_at s s' 8 16 e
         \<and> p_validation p = p_validation p0)"
proof -
  let ?r1 = "snd (randomHex 8 (random_src s))"
  let ?vid = "''video-'' @ fst (randomHex 8 (random_src s))"
  let ?s' = "runPipeline_with g fileName s"
  have A: "fst (gen_analysis g ?r1) = Inl e \<longrightarrow>
         run_failed_at s ?s' 2 4 e
         \<and> p_analysis (pipeline ?s') = p_analysis (pipeline s)
         \<and> p_systems (pipeline ?s') = p_systems (pipeline s)
         \<and> p_sop (pipeline ?s') = p_sop (pipeline s)
         \<and> p_execution (pipeline ?s') = p_execution (pipeline s)
         \<and> p_validation (pipeline ?s') = p_validation (pipeline s)"
    by (simp add: run_defs run_failed_at_def Suc_numerals)
  have B: "\<forall>a r2. gen_analysis g ?r1 = (Inr a, r2) \<and> fst (gen_sop g ?vid a r2) = Inl e \<longrightarrow>
         run_failed_at s ?s' 4 8 e
         \<and> p_sop (pipeline ?s') = p_sop (pipeline s)
         \<and> p_execution (pipeline ?s') = p_execution (pipeline s)
         \<and> p_validation (pipeline ?s') = p_validation (pipeline s)"
    by (simp add: run_defs run_failed_at_def Suc_numerals)
  have C: "\<forall>a r2 so r3. gen_analysis g ?r1 = (Inr a, r2) \<and> gen_sop g ?vid a r2 = (Inr so, r3)
           \<and> fst (gen_execution g so r3) = Inl e \<longrightarrow>
         run_failed_at s ?s' 7 14 e
         \<and> p_execution (pipeline ?s') = p_execution (pipeline s)
         \<and> p_validation (pipeline ?s') = p_validation (pipeline s)
         \<and> (p_validation (pipeline s) = None \<longrightarrow> p_validation (pipeline ?s') = None)"
    by (simp add: run_defs run_failed_at_def Suc_numerals)
  have D: "\<forall>a r2 so r3 ex r4. gen_analysis g ?r1 = (Inr a, r2) \<and> gen_sop g ?vid a r2 = (Inr so, r3)
           \<and> gen_execution g so r3 = (Inr ex, r4) \<and> fst (gen_validation g so ex r4) = Inl e \<longrightarrow>
         run_failed_at s ?s' 8 16 e
         \<and> p_validation (pipeline ?s') = p_validation (pipeline s)"
    by (simp add: run_defs run_failed_at_def Suc_numerals)
  show ?thesis
    unfolding Let_def by (rule conjI [OF A conjI [OF B conjI [OF C D]]])
qed

text \<open>
  C4 (amended) on a freshly loaded page with an execution generator that throws: status
  \<^verbatim>\<open>failed\<close>, stage 7, validation absent, the failure entry last in the log.
\<close>

theorem C4_generator_throws_witness:
  "p_validation (pipeline fresh_state) = None
   \<and> p_status (pipeline (runPipeline_with throwing_execution ''demo.mp4'' fresh_state)) = Failed
   \<and> p_stage (pipeline (runPipeline_with throwing_execution ''demo.mp4'' fresh_state)) = 7
   \<and> p_validation (pipeline (runPipeline_with throwing_execution ''demo.mp4'' fresh_state)) = None
   \<and> last (logs (runPipeline_with throwing_execution ''demo.mp4'' fresh_state))
       = ''[12:00:00] Pipeline failed: Error: driver crashed''"
proof -
  let ?r1 = "snd (randomHex 8 (random_src fresh_state))"
  let ?vid = "''video-'' @ fst (randomHex 8 (random_src fresh_state))"
  let ?so = "fst (generateMockSOP ?vid generateMockAnalysis ?r1)"
  let ?r3 = "snd (generateMockSOP ?vid generateMockAnalysis ?r1)"
  note t = C4_generator_throws [where s = fresh_state and g = throwing_execution
      and e = "Thrown ''Error: driver crashed''" and fileName = "''demo.mp4''", unfolded Let_def]
  note c = t [THEN conjunct2, THEN conjunct2, THEN conjunct1, rule_format,
      where a = generateMockAnalysis and ?r2.0 = ?r1 and so = ?so and ?r3.0 = ?r3]
  have h1: "gen_analysis throwing_execution ?r1 = (Inr generateMockAnalysis, ?r1)"
    by (simp add: throwing_execution_def mock_generators_def returns_def)
  have h2: "gen_sop throwing_execution ?vid generateMockAnalysis ?r1 = (Inr ?so, ?r3)"
    by (simp add: throwing_execution_def mock_generators_def returns_def)
  have h3: "fst (gen_execution throwing_execution ?so ?r3) = Inl (Thrown ''Error: driver crashed'')"
    by (simp add: throwing_execution_def)
  have v0: "p_validation (pipeline fresh_state) = None"
    by (simp add: fresh_state_simps initial_pipeline_def)
  from c h1 h2 h3 have r: "run_failed_at fresh_state
      (runPipeline_with throwing_execution ''demo.mp4'' fresh_state) 7 14
      (Thrown ''Error: driver crashed'')"
    and v: "p_validation (pipeline fresh_state) = None \<longrightarrow>
      p_validation (pipeline (runPipeline_with throwing_execution ''demo.mp4'' fresh_state)) = None"
    by blast+
  show ?thesis
    using r v v0 by (simp add: run_failed_at_def fresh_state_simps)
qed

text \<open>
  C5 as stated fails twice. A second run starts with the analysis of the first run still
  present (at stage 1); and in a first run the snapshot that sets stage 2 has no analysis
  yet, although its stage is 2.
\<close>

theorem C5_counterexample:
  "p_analysis (hd (run_trace mock_generators ''second.mp4'' (runPipeline ''first.mp4'' fresh_state)))
     \<noteq> None
   \<and> p_stage (run_trace mock_generators ''first.mp4'' fresh_state ! 2) = 2
   \<and> p_analysis (run_trace mock_generators ''first.mp4'' fresh_state ! 2) = None"
proof -
  have "p_analysis (hd (run_trace mock_generators ''second.mp4'' (runPipeline ''first.mp4'' fresh_state)))
     = Some generateMockAnalysis"
    by (simp add: run_trace_hd runPipeline_final)
  moreover have "p_stage (run_trace mock_generators ''first.mp4'' fresh_state ! 2) = 2
     \<and> p_analysis (run_trace mock_generators ''first.mp4'' fresh_state ! 2) = None"
    by (simp add: run_trace_def run_defs fresh_state_simps initial_pipeline_def)
  ultimately show ?thesis by simp
qed

lemma run_trace_present_after: "list_all (present_after x) (run_trace g fileName s)"
  by (cases x;
      cases rule: generator_cases [where g = g and ?r1.0 = "snd (randomHex 8 (random_src s))"
        and vid = "''video-'' @ fst (randomHex 8 (random_src s))"])
    (simp_all add: run_trace_def run_defs present_after_def)

lemma run_trace_present_only_from:
  "\<not> present x (pipeline s) \<Longrightarrow> list_all (present_only_from x) (run_trace g fileName s)"
  by (cases x;
      cases rule: generator_cases [where g = g and ?r1.0 = "snd (randomHex 8 (random_src s))"
        and vid = "''video-'' @ fst (randomHex 8 (random_src s))"])
    (simp_all add: run_trace_def run_defs present_only_from_def)

lemma run_trace_present_kept:
  "present x (pipeline s) \<Longrightarrow> list_all (present x) (run_trace g fileName s)"
  by (cases x;
      cases rule: generator_cases [where g = g and ?r1.0 = "snd (randomHex 8 (random_src s))"
        and vid = "''video-'' @ fst (randomHex 8 (random_src s))"])
    (simp_all add: run_trace_def run_defs)

text \<open>
  C5, amended. An invocation of \<^verbatim>\<open>runPipeline\<close> does not start from a fresh state: its
  first snapshot is the current state with only status set to \<^verbatim>\<open>running\<close> and stage set to
  1, the artifacts being kept. Within a run (whether it completes or fails, and whatever
  state it starts from) the stage never decreases, and in every snapshot the artifact for
  stage N is present whenever stage > N. If that artifact was absent when the run started
  it is present only if stage >= N; if it was present when the run started it stays
  present.
\<close>

theorem C5_stage_and_artifacts:
  "let tr = run_trace g fileName s
   in tr \<noteq> []
    \<and> hd tr = (pipeline s)\<lparr> p_status := Running, p_stage := 1 \<rparr>
    \<and> sorted (map p_stage tr)
    \<and> list_all (present_after x) tr
    \<and> (\<not> present x (pipeline s) \<longrightarrow> list_all (present_only_from x) tr)
    \<and> (present x (pipeline s) \<longrightarrow> list_all (present x) tr)"
  unfolding Let_def
  using run_trace_hd [of g fileName s] run_trace_sorted [of g fileName s]
    run_trace_present_after [of x g fileName s] run_trace_present_only_from [of x s g fileName]
    run_trace_present_kept [of x s g fileName]
  by blast

text \<open>
  C5 (amended) for the analysis in the first run on a freshly loaded page, and for the
  validation in a second run.
\<close>

theorem C5_stage_and_artifacts_witness:
  "\<not> present A_analysis (pipeline fresh_state)
   \<and> list_all (present_only_from A_analysis) (run_trace mock_generators ''demo.mp4'' fresh_state)
   \<and> list_all (present_after A_analysis) (run_trace mock_generators ''demo.mp4'' fresh_state)
   \<and> sorted (map p_stage (run_trace mock_generators ''demo.mp4'' fresh_state))
   \<and> p_stage (hd (run_trace mock_generators ''demo.mp4'' fresh_state)) = 1
   \<and> present A_validation (pipeline (runPipeline ''first.mp4'' fresh_state))
   \<and> list_all (present A_validation)
        (run_trace mock_generators ''second.mp4'' (runPipeline ''first.mp4'' fresh_state))"
proof -
  have h: "\<not> present A_analysis (pipeline fresh_state)"
    by (simp add: fresh_state_simps initial_pipeline_def)
  note t = C5_stage_and_artifacts [of mock_generators "''demo.mp4''" fresh_state A_analysis,
      unfolded Let_def]
  have h2: "present A_validation (pipeline (runPipeline ''first.mp4'' fresh_state))"
    by (simp add: runPipeline_def run_defs)
  note t2 = C5_stage_and_artifacts [of mock_generators "''second.mp4''"
      "runPipeline ''first.mp4'' fresh_state" A_validation, unfolded Let_def]
  from t h t2 h2 show ?thesis by simp
qed

text \<open>
  C9 as stated fails: \<^verbatim>\<open>runPipeline\<close> with the empty name on a freshly loaded page changes the
  log and the pipeline state, and a file selected while a run has status \<^verbatim>\<open>running\<close> starts
  another run, which appends to the log.
\<close>

theorem C9_counterexample:
  "logs (runPipeline [] fresh_state) \<noteq> logs fresh_state
   \<and> pipeline (runPipeline [] fresh_state) \<noteq> pipeline fresh_state
   \<and> p_status (pipeline running_state) = Running
   \<and> logs (handleFileSelect (Some [''second.mp4'']) running_state) \<noteq> logs running_state"
proof -
  have "length (logs (runPipeline f s)) \<noteq> length (logs s)" for f s
    by (simp add: runPipeline_final)
  then have l: "logs (runPipeline f s) \<noteq> logs s" for f s
    by metis
  have "p_status (pipeline (runPipeline [] fresh_state)) \<noteq> p_status (pipeline fresh_state)"
    by (simp add: runPipeline_final fresh_state_simps initial_pipeline_def)
  then have p: "pipeline (runPipeline [] fresh_state) \<noteq> pipeline fresh_state"
    by metis
  have r: "p_status (pipeline running_state) = Running"
    by (simp add: running_state_def)
  show ?thesis
    using l p r by (simp add: handleFileSelect_def)
qed

text \<open>
  C9, amended. The rejections are made by the callers of \<^verbatim>\<open>runPipeline\<close>:
  \<^verbatim>\<open>handleFileSelect\<close> with no file (\<^verbatim>\<open>null\<close> or an empty list) leaves the whole state, the
  pipeline state and the log included, unchanged, and the button "Run Demo Pipeline" does
  nothing while the status is \<^verbatim>\<open>running\<close>. \<^verbatim>\<open>runPipeline\<close> itself does not inspect its
  \<^verbatim>\<open>videoName\<close>: with the empty name it starts like any other run, logging
  \<^verbatim>\<open>Starting pipeline for: \<close> and setting status \<^verbatim>\<open>running\<close> and stage 1.
\<close>

theorem C9_rejections:
  "handleFileSelect None s = s
   \<and> handleFileSelect (Some []) s = s
   \<and> (p_status (pipeline s) = Running \<longrightarrow> demo_button_click s = s)
   \<and> logs (runPipeline [] s) ! length (logs s) = ''['' @ clock_src s 0 @ ''] Starting pipeline for: ''
   \<and> hd (run_trace mock_generators [] s) = (pipeline s)\<lparr> p_status := Running, p_stage := 1 \<rparr>"
  using runPipeline_final [of "[]" s] run_trace_hd [of mock_generators "[]" s]
  by (simp add: handleFileSelect_def demo_button_click_def)

text \<open>C9 (amended) on a state whose status is \<^verbatim>\<open>running\<close>.\<close>

theorem C9_rejections_witness:
  "p_status (pipeline running_state) = Running
   \<and> demo_button_click running_state = running_state
   \<and> handleFileSelect None running_state = running_state"
proof -
  have r: "p_status (pipeline running_state) = Running"
    by (simp add: running_state_def)
  from C9_rejections [of running_state] r show ?thesis by simp
qed

end
